theory Spec2Isabelle
  imports Complex_Main "HOL-Library.AList"
begin

section \<open>Python values carried by celery events\<close>

text \<open>
  An event is a Python dict decoded from the broker's message: its values are \<open>None\<close>,
  booleans, integers, floats, strings, lists and dicts. Floats are modelled as real numbers
  (rounding, infinities and NaN are outside the model), integers are unbounded.
\<close>

datatype pyval =
    PNone
  | PBool bool
  | PInt int
  | PFloat real
  | PStr string
  | PList "pyval list"
  | PDict "(string \<times> pyval) list"

type_synonym event = "string \<rightharpoonup> pyval"

text \<open>
  The exception classes that occur in \<^verbatim>\<open>__main__.py\<close> or are raised by the operations it
  uses. \<open>KeyError\<close>, \<open>TypeError\<close>, \<open>OverflowError\<close> and \<open>AttributeError\<close> derive from
  \<open>Exception\<close>; \<open>KeyboardInterrupt\<close> and \<open>SystemExit\<close> derive from \<open>BaseException\<close> only, so
  \<^verbatim>\<open>except Exception\<close> does not catch them.
\<close>

datatype exn =
  KeyError | TypeError | OverflowError | AttributeError | KeyboardInterrupt | SystemExit

fun is_Exception :: "exn \<Rightarrow> bool" where
  "is_Exception KeyError = True"
| "is_Exception TypeError = True"
| "is_Exception OverflowError = True"
| "is_Exception AttributeError = True"
| "is_Exception KeyboardInterrupt = False"
| "is_Exception SystemExit = False"

text \<open>Truthiness, as \<^verbatim>\<open>if x:\<close>, \<^verbatim>\<open>not x\<close> and \<^verbatim>\<open>x or y\<close> test it.\<close>

fun py_truthy :: "pyval \<Rightarrow> bool" where
  "py_truthy PNone = False"
| "py_truthy (PBool b) = b"
| "py_truthy (PInt i) = (i \<noteq> 0)"
| "py_truthy (PFloat r) = (r \<noteq> 0)"
| "py_truthy (PStr s) = (s \<noteq> [])"
| "py_truthy (PList xs) = (xs \<noteq> [])"
| "py_truthy (PDict kvs) = (kvs \<noteq> [])"

text \<open>\<^verbatim>\<open>a or b\<close> evaluates to \<open>a\<close> when \<open>a\<close> is truthy and to \<open>b\<close> otherwise.\<close>

definition py_or :: "pyval \<Rightarrow> pyval \<Rightarrow> pyval" where
  "py_or a b = (if py_truthy a then a else b)"

text \<open>
  Subtraction \<^verbatim>\<open>a - b\<close>: defined on numbers (a bool is an int), the result is an int when
  both operands are ints and a float otherwise. Beside a float, an int operand is first
  converted to a float, which raises \<open>OverflowError\<close> when its magnitude reaches
  \<open>2 ^ 1024 - 2 ^ 970\<close> (it would round to \<open>2 ^ 1024\<close>, beyond the largest double). Every
  pair with an operand that is not a number raises \<open>TypeError\<close>.
\<close>

fun as_int :: "pyval \<Rightarrow> int option" where
  "as_int (PBool b) = Some (if b then 1 else 0)"
| "as_int (PInt i) = Some i"
| "as_int _ = None"

fun as_num :: "pyval \<Rightarrow> real option" where
  "as_num (PBool b) = Some (if b then 1 else 0)"
| "as_num (PInt i) = Some (of_int i)"
| "as_num (PFloat r) = Some r"
| "as_num _ = None"

definition int_too_large :: "pyval \<Rightarrow> bool" where
  "int_too_large v =
     (case as_int v of
        None \<Rightarrow> False
      | Some i \<Rightarrow> 2 ^ 1024 - 2 ^ 970 \<le> \<bar>i\<bar>)"

definition py_sub :: "pyval \<Rightarrow> pyval \<Rightarrow> exn + pyval" where
  "py_sub a b =
     (case (as_int a, as_int b) of
        (Some i, Some j) \<Rightarrow> Inr (PInt (i - j))
      | _ \<Rightarrow>
        (case (as_num a, as_num b) of
           (Some x, Some y) \<Rightarrow>
             if int_too_large a \<or> int_too_large b then Inl OverflowError
             else Inr (PFloat (x - y))
         | _ \<Rightarrow> Inl TypeError))"

text \<open>
  The slice \<^verbatim>\<open>x[5:]\<close>: strings and lists drop their first five elements; \<open>None\<close> and
  numbers are not subscriptable and a dict cannot be indexed by a slice (\<open>TypeError\<close>).
\<close>

fun py_slice_from5 :: "pyval \<Rightarrow> exn + pyval" where
  "py_slice_from5 (PStr s) = Inr (PStr (drop 5 s))"
| "py_slice_from5 (PList xs) = Inr (PList (drop 5 xs))"
| "py_slice_from5 _ = Inl TypeError"

text \<open>
  Keys of dicts and members of sets are compared by hash and \<^verbatim>\<open>==\<close>: \<open>1\<close>, \<open>1.0\<close> and
  \<open>True\<close> are one key, lists and dicts are unhashable (\<open>TypeError\<close>).
\<close>

datatype pykey = KNone | KNum real | KStr string

fun py_hash :: "pyval \<Rightarrow> exn + pykey" where
  "py_hash PNone = Inr KNone"
| "py_hash (PBool b) = Inr (KNum (if b then 1 else 0))"
| "py_hash (PInt i) = Inr (KNum (of_int i))"
| "py_hash (PFloat r) = Inr (KNum r)"
| "py_hash (PStr s) = Inr (KStr s)"
| "py_hash (PList xs) = Inl TypeError"
| "py_hash (PDict kvs) = Inl TypeError"


section \<open>The expiring dictionary \<^verbatim>\<open>tuids\<close>\<close>

text \<open>
  The value stored for a task: \<^verbatim>\<open>{'name': name, 'received': ts, 'started': 0}\<close>. The
  handler only ever stores dicts with exactly these three keys.
\<close>

record task_rec =
  name :: pyval
  received :: pyval
  started :: pyval

text \<open>
  Modelled from the spec: the class \<open>ExpiringDict\<close> (package \<open>expiringdict\<close>, not among the
  sources), the "TaskState Store" of sections 3 and 4.1 of the specification: an
  insertion-ordered dict whose entries carry the wall-clock time at which they were set.
  An entry whose age has reached \<open>max_age_seconds\<close> is invisible to lookups and is purged
  by the lookup that finds it; setting a key in a full dict evicts the oldest-inserted
  entry. The list holds the entries oldest first. Each operation reads the clock once: the
  argument \<open>now\<close>.
\<close>

type_synonym expiring_dict = "(pykey \<times> (task_rec \<times> real)) list"

definition max_len :: nat where
  "max_len = 10240"

definition max_age_seconds :: real where
  "max_age_seconds = 60 * 60 * 24 * 7"

text \<open>\<^verbatim>\<open>key in d\<close>\<close>

definition ed_contains :: "real \<Rightarrow> pykey \<Rightarrow> expiring_dict \<Rightarrow> bool \<times> expiring_dict" where
  "ed_contains now k d =
     (case map_of d k of
        None \<Rightarrow> (False, d)
      | Some (v, set_time) \<Rightarrow>
          if now - set_time < max_age_seconds then (True, d)
          else (False, AList.delete k d))"

text \<open>\<^verbatim>\<open>d[key]\<close>\<close>

definition ed_getitem :: "real \<Rightarrow> pykey \<Rightarrow> expiring_dict \<Rightarrow> (exn + task_rec) \<times> expiring_dict" where
  "ed_getitem now k d =
     (case map_of d k of
        None \<Rightarrow> (Inl KeyError, d)
      | Some (v, set_time) \<Rightarrow>
          if now - set_time < max_age_seconds then (Inr v, d)
          else (Inl KeyError, AList.delete k d))"

text \<open>
  \<^verbatim>\<open>d[key] = value\<close>, which \<^verbatim>\<open>d.update({key: value})\<close> calls. A key already held keeps
  its position (unless the dict is full, when it is deleted first and so moves to the end).
\<close>

definition ed_setitem :: "real \<Rightarrow> pykey \<Rightarrow> task_rec \<Rightarrow> expiring_dict \<Rightarrow> expiring_dict" where
  "ed_setitem now k v d =
     (let d' =
        (if length d = max_len then
           (case ed_contains now k d of
              (True, d1) \<Rightarrow> AList.delete k d1
            | (False, d1) \<Rightarrow> tl d1)
         else d)
      in AList.update k (v, now) d')"

text \<open>\<^verbatim>\<open>del d[key]\<close>: the plain dict deletion, which does not look at the age.\<close>

definition ed_delitem :: "pykey \<Rightarrow> expiring_dict \<Rightarrow> exn + expiring_dict" where
  "ed_delitem k d =
     (case map_of d k of
        None \<Rightarrow> Inl KeyError
      | Some _ \<Rightarrow> Inr (AList.delete k d))"

text \<open>
  \<^verbatim>\<open>d[key]['started'] = ts\<close> assigns into the dict object that the store holds: the entry
  changes in place and keeps its position and its time.
\<close>

definition ed_set_started :: "pykey \<Rightarrow> pyval \<Rightarrow> expiring_dict \<Rightarrow> expiring_dict" where
  "ed_set_started k ts d = AList.map_entry k (\<lambda>(v, set_time). (v\<lparr>started := ts\<rparr>, set_time)) d"

text \<open>
  What a lookup of \<open>k\<close> at time \<open>now\<close> would find, without the purge: the content of the
  store that is visible at that time.
\<close>

definition ed_view :: "real \<Rightarrow> expiring_dict \<Rightarrow> pykey \<rightharpoonup> task_rec" where
  "ed_view now d k =
     (case map_of d k of
        None \<Rightarrow> None
      | Some (v, set_time) \<Rightarrow> if now - set_time < max_age_seconds then Some v else None)"


section \<open>The state of the process and its outputs\<close>

text \<open>
  Modelled from the spec: the metrics sink (module \<open>influx\<close>, not part of the sources):
  \<open>TaskStats\<close>, \<open>QueueStats\<close> and \<open>WorkerStats\<close> accept a point, \<open>commit\<close> flushes the batch.
  The model records the calls in the order they are made; a call does not raise.
\<close>

datatype sink_call =
    TaskStats pyval pyval pyval
  | QueueStats string int
  | WorkerStats nat
  | QueueStats_commit
  | WorkerStats_commit

text \<open>The calls of the logger, one constructor for each call in the source.\<close>

datatype log_entry =
    Debug_no_handler pyval
  | Error_no_name event
  | Debug_task nat pyval pyval pyval
  | Exception_task exn event
  | Exception_collector
  | Debug_queue string int
  | Debug_workers nat

text \<open>
  The module's globals \<open>tuids\<close> and \<open>heartbeats\<close>, the outputs, and the number of store
  operations made so far: the wall clock is a function \<open>clk\<close> from that number to the time
  the operation reads.
\<close>

record state =
  tuids :: expiring_dict
  heartbeats :: "pykey set"
  ticks :: nat
  sink :: "sink_call list"
  logged :: "log_entry list"

type_synonym clock = "nat \<Rightarrow> real"

definition tuids_contains :: "clock \<Rightarrow> pykey \<Rightarrow> state \<Rightarrow> bool \<times> state" where
  "tuids_contains clk k s =
     (case ed_contains (clk (ticks s)) k (tuids s) of
        (b, d) \<Rightarrow> (b, s\<lparr>tuids := d, ticks := Suc (ticks s)\<rparr>))"

definition tuids_getitem :: "clock \<Rightarrow> pykey \<Rightarrow> state \<Rightarrow> (exn + task_rec) \<times> state" where
  "tuids_getitem clk k s =
     (case ed_getitem (clk (ticks s)) k (tuids s) of
        (r, d) \<Rightarrow> (r, s\<lparr>tuids := d, ticks := Suc (ticks s)\<rparr>))"

definition tuids_dict_update :: "clock \<Rightarrow> pykey \<Rightarrow> task_rec \<Rightarrow> state \<Rightarrow> state" where
  "tuids_dict_update clk k v s =
     s\<lparr>tuids := ed_setitem (clk (ticks s)) k v (tuids s), ticks := Suc (ticks s)\<rparr>"

definition log_call :: "log_entry \<Rightarrow> state \<Rightarrow> state" where
  "log_call l s = s\<lparr>logged := logged s @ [l]\<rparr>"

definition sink_call :: "sink_call \<Rightarrow> state \<Rightarrow> state" where
  "sink_call c s = s\<lparr>sink := sink s @ [c]\<rparr>"


section \<open>\<^verbatim>\<open>worker_heartbeat\<close>\<close>

text \<open>
  \<^verbatim>\<open>heartbeats.add(event['hostname'])\<close>. The function has no \<^verbatim>\<open>try\<close>: a missing or
  unhashable hostname raises. The result is the exception that leaves the function, if any,
  and the state.
\<close>

definition worker_heartbeat :: "event \<Rightarrow> state \<Rightarrow> exn option \<times> state" where
  "worker_heartbeat event s =
     (case event ''hostname'' of
        None \<Rightarrow> (Some KeyError, s)
      | Some h \<Rightarrow>
        (case py_hash h of
           Inl e \<Rightarrow> (Some e, s)
         | Inr k \<Rightarrow> (None, s\<lparr>heartbeats := insert k (heartbeats s)\<rparr>)))"


section \<open>\<^verbatim>\<open>task_handler\<close>\<close>

text \<open>
  How a block of the handler ends: it falls through to the next statement with the values
  it has bound, it executes \<^verbatim>\<open>return\<close>, or it raises.
\<close>

datatype 'a flow = Next 'a | Return | Raise exn

definition terminal_kinds :: "pyval list" where
  "terminal_kinds =
     [PStr ''succeeded'', PStr ''failed'', PStr ''retried'', PStr ''rejected'', PStr ''revoked'']"

text \<open>
  Lines 82-83, \<^verbatim>\<open>cname == 'received'\<close>. The dict display evaluates \<^verbatim>\<open>event['timestamp']\<close>
  before it hashes \<open>uuid\<close>. The block binds the key, \<open>name\<close> and \<open>duration\<close> (still \<open>None\<close>).
\<close>

definition received_block :: "clock \<Rightarrow> event \<Rightarrow> pyval \<Rightarrow> state \<Rightarrow> (pykey \<times> pyval \<times> pyval) flow \<times> state" where
  "received_block clk event uuid s =
     (case event ''name'' of
        None \<Rightarrow> (Raise KeyError, s)
      | Some nm \<Rightarrow>
        (case event ''timestamp'' of
           None \<Rightarrow> (Raise KeyError, s)
         | Some ts \<Rightarrow>
           (case py_hash uuid of
              Inl e \<Rightarrow> (Raise e, s)
            | Inr k \<Rightarrow>
                (Next (k, nm, PNone),
                 tuids_dict_update clk k \<lparr>name = nm, received = ts, started = PInt 0\<rparr> s))))"

text \<open>Lines 85-90, \<^verbatim>\<open>cname == 'started'\<close>.\<close>

definition started_block :: "clock \<Rightarrow> event \<Rightarrow> pyval \<Rightarrow> state \<Rightarrow> (pykey \<times> pyval \<times> pyval) flow \<times> state" where
  "started_block clk event uuid s =
     (case py_hash uuid of
        Inl e \<Rightarrow> (Raise e, s)
      | Inr k \<Rightarrow>
        (case tuids_contains clk k s of
           (False, s1) \<Rightarrow> (Return, s1)
         | (True, s1) \<Rightarrow>
           (case tuids_getitem clk k s1 of
              (Inl e, s2) \<Rightarrow> (Raise e, s2)
            | (Inr r1, s2) \<Rightarrow>
              (case event ''timestamp'' of
                 None \<Rightarrow> (Raise KeyError, s2)
               | Some ts \<Rightarrow>
                 (case tuids_getitem clk k s2 of
                    (Inl e, s3) \<Rightarrow> (Raise e, s3)
                  | (Inr r2, s3) \<Rightarrow>
                    (case tuids_getitem clk k (s3\<lparr>tuids := ed_set_started k ts (tuids s3)\<rparr>) of
                       (Inl e, s4) \<Rightarrow> (Raise e, s4)
                     | (Inr r3, s4) \<Rightarrow>
                       (case tuids_getitem clk k s4 of
                          (Inl e, s5) \<Rightarrow> (Raise e, s5)
                        | (Inr r4, s5) \<Rightarrow>
                          (case py_sub (started r3) (received r4) of
                             Inl e \<Rightarrow> (Raise e, s5)
                           | Inr d \<Rightarrow> (Next (k, name r1, d), s5)))))))))"

text \<open>Lines 92-94, every other \<open>cname\<close>: the terminal kinds, \<open>sent\<close> and anything else.\<close>

definition other_block :: "clock \<Rightarrow> pyval \<Rightarrow> state \<Rightarrow> (pykey \<times> pyval \<times> pyval) flow \<times> state" where
  "other_block clk uuid s =
     (case py_hash uuid of
        Inl e \<Rightarrow> (Raise e, s)
      | Inr k \<Rightarrow>
        (case tuids_contains clk k s of
           (False, s1) \<Rightarrow> (Return, s1)
         | (True, s1) \<Rightarrow>
           (case tuids_getitem clk k s1 of
              (Inl e, s2) \<Rightarrow> (Raise e, s2)
            | (Inr r, s2) \<Rightarrow> (Next (k, name r, PNone), s2))))"

text \<open>
  Lines 102-104, under \<^verbatim>\<open>cname in ['succeeded', 'failed', 'retried', 'rejected', 'revoked']\<close>:
  the duration when the record's \<open>started\<close> is truthy, then the deletion.
\<close>

definition terminal_block :: "clock \<Rightarrow> event \<Rightarrow> pykey \<Rightarrow> pyval \<Rightarrow> state \<Rightarrow> pyval flow \<times> state" where
  "terminal_block clk event k duration s =
     (case tuids_getitem clk k s of
        (Inl e, s1) \<Rightarrow> (Raise e, s1)
      | (Inr r1, s1) \<Rightarrow>
        (case
           (if py_truthy (started r1) then
              (case event ''timestamp'' of
                 None \<Rightarrow> (Raise KeyError, s1)
               | Some ts \<Rightarrow>
                 (case tuids_getitem clk k s1 of
                    (Inl e, s2) \<Rightarrow> (Raise e, s2)
                  | (Inr r2, s2) \<Rightarrow>
                    (case py_sub ts (started r2) of
                       Inl e \<Rightarrow> (Raise e, s2)
                     | Inr d \<Rightarrow> (Next d, s2))))
            else (Next duration, s1))
         of
           (Next d, s3) \<Rightarrow>
             (case ed_delitem k (tuids s3) of
                Inl e \<Rightarrow> (Raise e, s3)
              | Inr t \<Rightarrow> (Next d, s3\<lparr>tuids := t\<rparr>))
         | (Return, s3) \<Rightarrow> (Return, s3)
         | (Raise e, s3) \<Rightarrow> (Raise e, s3)))"

text \<open>Lines 96-111: the name check, the terminal block, the log line and the metric.\<close>

definition report :: "clock \<Rightarrow> event \<Rightarrow> pyval \<Rightarrow> pykey \<Rightarrow> pyval \<Rightarrow> pyval \<Rightarrow> state \<Rightarrow> unit flow \<times> state" where
  "report clk event cname k nm duration s =
     (if \<not> py_truthy nm then (Return, log_call (Error_no_name event) s)
      else
        (case
           (if cname \<in> set terminal_kinds then terminal_block clk event k duration s
            else (Next duration, s))
         of
           (Next d, s1) \<Rightarrow>
             (Next (),
              sink_call (TaskStats nm cname (py_or d (PFloat 0)))
                (log_call (Debug_task (length (tuids s1)) nm cname d) s1))
         | (Return, s1) \<Rightarrow> (Return, s1)
         | (Raise e, s1) \<Rightarrow> (Raise e, s1)))"

text \<open>Lines 77-111: the body of the \<^verbatim>\<open>try\<close>.\<close>

definition task_handler_try :: "clock \<Rightarrow> event \<Rightarrow> state \<Rightarrow> unit flow \<times> state" where
  "task_handler_try clk event s =
     (case event ''type'' of
        None \<Rightarrow> (Raise KeyError, s)
      | Some ty \<Rightarrow>
        (case py_slice_from5 ty of
           Inl e \<Rightarrow> (Raise e, s)
         | Inr cname \<Rightarrow>
           (case event ''uuid'' of
              None \<Rightarrow> (Raise KeyError, s)
            | Some uuid \<Rightarrow>
              (case
                 (if cname = PStr ''received'' then received_block clk event uuid s
                  else if cname = PStr ''started'' then started_block clk event uuid s
                  else other_block clk uuid s)
               of
                 (Next (k, nm, duration), s1) \<Rightarrow> report clk event cname k nm duration s1
               | (Return, s1) \<Rightarrow> (Return, s1)
               | (Raise e, s1) \<Rightarrow> (Raise e, s1)))))"

text \<open>
  Lines 75-113: \<^verbatim>\<open>except Exception as ex: log.exception(str(ex), event)\<close>. The logging
  package handles its own errors, so the call in the \<^verbatim>\<open>except\<close> clause does not raise. The
  result is the exception that leaves the handler, if any, and the state.
\<close>

definition task_handler :: "clock \<Rightarrow> event \<Rightarrow> state \<Rightarrow> exn option \<times> state" where
  "task_handler clk event s =
     (case task_handler_try clk event s of
        (Raise ex, s1) \<Rightarrow>
          if is_Exception ex then (None, log_call (Exception_task ex event) s1)
          else (Some ex, s1)
      | (Return, s1) \<Rightarrow> (None, s1)
      | (Next u, s1) \<Rightarrow> (None, s1))"


section \<open>\<^verbatim>\<open>event_dispatcher\<close> and the collector\<close>

definition task_types :: "pykey list" where
  "task_types =
     [KStr ''task-succeeded'', KStr ''task-sent'', KStr ''task-received'', KStr ''task-started'',
      KStr ''task-failed'', KStr ''task-rejected'', KStr ''task-revoked'', KStr ''task-retried'']"

definition worker_types :: "pykey list" where
  "worker_types = [KStr ''worker-heartbeat'', KStr ''worker-online'']"

text \<open>
  \<^verbatim>\<open>gevent.spawn(func, event)\<close> schedules the handler in a greenlet of its own; the greenlets
  run in the order they were spawned. The model runs the handler at once and to its end,
  and an exception that leaves the handler ends that greenlet only.
\<close>

definition event_dispatcher :: "clock \<Rightarrow> event \<Rightarrow> state \<Rightarrow> exn option \<times> state" where
  "event_dispatcher clk event s =
     (case event ''type'' of
        None \<Rightarrow> (Some KeyError, s)
      | Some ty \<Rightarrow>
        (case py_hash ty of
           Inl e \<Rightarrow> (Some e, s)
         | Inr k \<Rightarrow>
             if k \<in> set task_types then (None, snd (task_handler clk event s))
             else if k \<in> set worker_types then (None, snd (worker_heartbeat event s))
             else (None, log_call (Debug_no_handler ty) s)))"

text \<open>
  \<^verbatim>\<open>Collector._run\<close>, with the events that the receiver captures given as a list: each is
  passed to \<^verbatim>\<open>event_dispatcher\<close>; an \<open>Exception\<close> is logged and the loop goes on, a
  \<open>KeyboardInterrupt\<close> or \<open>SystemExit\<close> ends it.
\<close>

fun collector_run :: "clock \<Rightarrow> event list \<Rightarrow> state \<Rightarrow> state" where
  "collector_run clk [] s = s"
| "collector_run clk (event # events) s =
     (case event_dispatcher clk event s of
        (None, s1) \<Rightarrow> collector_run clk events s1
      | (Some ex, s1) \<Rightarrow>
          if is_Exception ex then collector_run clk events (log_call Exception_collector s1)
          else s1)"


section \<open>\<^verbatim>\<open>Submitter._run\<close>\<close>

text \<open>
  One pass of the loop body after the sleep, lines 140-158. \<open>counts\<close> is what
  \<^verbatim>\<open>redis.itercounts()\<close> yields (module \<open>broker\<close>, not part of the sources): pairs of a queue
  name and its depth.
\<close>

definition report_queue :: "string \<times> int \<Rightarrow> state \<Rightarrow> state" where
  "report_queue p s =
     (case p of (qname, count) \<Rightarrow>
        sink_call (QueueStats qname count) (log_call (Debug_queue qname count) s))"

definition submitter_cycle :: "(string \<times> int) list \<Rightarrow> state \<Rightarrow> state" where
  "submitter_cycle counts s =
     (let s1 = fold report_queue counts s;
          s2 = sink_call (WorkerStats (card (heartbeats s1))) s1;
          s3 = log_call (Debug_workers (card (heartbeats s2))) s2;
          s4 = s3\<lparr>heartbeats := {}\<rparr>;
          s5 = sink_call QueueStats_commit s4;
          s6 = sink_call WorkerStats_commit s5
      in s6)"

text \<open>The state of the module after import: both globals empty.\<close>

definition init :: state where
  "init = \<lparr>tuids = [], heartbeats = {}, ticks = 0, sink = [], logged = []\<rparr>"



section \<open>Well-formed events and a constant clock\<close>

text \<open>
  The fields of celery's events that the handlers read: \<open>type\<close> and \<open>uuid\<close> of a task event
  of a given kind; the builders below make the smallest such events.
\<close>

definition is_task_event :: "string \<Rightarrow> pyval \<Rightarrow> event \<Rightarrow> bool" where
  "is_task_event kind uuid e \<longleftrightarrow>
     e ''type'' = Some (PStr (''task-'' @ kind)) \<and> e ''uuid'' = Some uuid"

definition task_event :: "string \<Rightarrow> string \<Rightarrow> pyval \<Rightarrow> event" where
  "task_event kind uuid ts =
     [''type'' \<mapsto> PStr (''task-'' @ kind), ''uuid'' \<mapsto> PStr uuid, ''timestamp'' \<mapsto> ts]"

definition named_task_event :: "string \<Rightarrow> string \<Rightarrow> string \<Rightarrow> pyval \<Rightarrow> event" where
  "named_task_event kind uuid nm ts = (task_event kind uuid ts)(''name'' \<mapsto> PStr nm)"

definition worker_event :: "string \<Rightarrow> string \<Rightarrow> event" where
  "worker_event kind hostname =
     [''type'' \<mapsto> PStr (''worker-'' @ kind), ''hostname'' \<mapsto> PStr hostname]"

definition clock_at :: "real \<Rightarrow> clock" where
  "clock_at t n = t"

text \<open>A float that is not negative: what a duration is expected to be.\<close>

definition is_nonneg_float :: "pyval \<Rightarrow> bool" where
  "is_nonneg_float v = (case v of PFloat x \<Rightarrow> 0 \<le> x | _ \<Rightarrow> False)"

text \<open>The state after \<open>received(A, add, 0)\<close> has been handled at wall-clock time \<open>0\<close>.\<close>

definition after_received :: state where
  "after_received =
     snd (task_handler (clock_at 0) (named_task_event ''received'' ''A'' ''add'' (PFloat 0)) init)"


text \<open>The state after \<open>started(A, 5)\<close> has been handled next.\<close>

definition after_started :: state where
  "after_started =
     snd (task_handler (clock_at 0) (task_event ''started'' ''A'' (PFloat 5)) after_received)"

text \<open>The state after \<open>received(A, '', 0)\<close>, an event with an empty name.\<close>

definition after_received_unnamed :: state where
  "after_received_unnamed =
     snd (task_handler (clock_at 0) (named_task_event ''received'' ''A'' [] (PFloat 0)) init)"

text \<open>The definitions that evaluate a run of the handlers on concrete events.\<close>

lemmas run_defs =
  event_dispatcher_def task_types_def worker_types_def worker_heartbeat_def
  task_handler_def task_handler_try_def received_block_def started_block_def other_block_def
  terminal_block_def report_def tuids_contains_def tuids_getitem_def tuids_dict_update_def
  ed_contains_def ed_getitem_def ed_setitem_def ed_delitem_def ed_set_started_def
  log_call_def sink_call_def init_def max_len_def max_age_seconds_def terminal_kinds_def
  py_or_def py_sub_def int_too_large_def task_event_def named_task_event_def clock_at_def


section \<open>What the handler can raise\<close>

lemma py_hash_raises: "py_hash v = Inl x \<Longrightarrow> x = TypeError"
  by (cases v) auto

lemma py_sub_raises: "py_sub a b = Inl x \<Longrightarrow> is_Exception x"
  by (auto simp: py_sub_def split: option.splits if_splits)

lemma py_slice_from5_raises: "py_slice_from5 v = Inl x \<Longrightarrow> x = TypeError"
  by (cases v) auto

lemma ed_getitem_raises: "ed_getitem now k d = (Inl x, d') \<Longrightarrow> x = KeyError"
  by (auto simp: ed_getitem_def split: option.splits if_splits)

lemma tuids_getitem_raises: "tuids_getitem clk k s = (Inl x, s') \<Longrightarrow> x = KeyError"
  by (auto simp: tuids_getitem_def split: prod.splits dest: ed_getitem_raises)

lemma ed_delitem_raises: "ed_delitem k d = Inl x \<Longrightarrow> x = KeyError"
  by (auto simp: ed_delitem_def split: option.splits)

lemma received_block_raises: "received_block clk e u s = (Raise x, s') \<Longrightarrow> is_Exception x"
  by (auto simp: received_block_def split: option.splits sum.splits dest: py_hash_raises)

lemma other_block_raises: "other_block clk u s = (Raise x, s') \<Longrightarrow> is_Exception x"
  by (auto simp: other_block_def split: option.splits sum.splits prod.splits bool.splits
      dest: py_hash_raises tuids_getitem_raises)

lemma started_block_raises: "started_block clk e u s = (Raise x, s') \<Longrightarrow> is_Exception x"
  by (auto simp: started_block_def split: option.splits sum.splits prod.splits bool.splits
      dest: py_hash_raises tuids_getitem_raises py_sub_raises)

lemma terminal_block_raises: "terminal_block clk e k d s = (Raise x, s') \<Longrightarrow> is_Exception x"
  by (auto simp: terminal_block_def
      split: option.splits sum.splits prod.splits flow.splits if_splits
      dest: tuids_getitem_raises py_sub_raises ed_delitem_raises)

lemma report_raises: "report clk e cn k nm d s = (Raise x, s') \<Longrightarrow> is_Exception x"
  by (auto simp: report_def split: prod.splits flow.splits if_splits dest: terminal_block_raises)

lemma task_handler_try_raises: "task_handler_try clk e s = (Raise x, s') \<Longrightarrow> is_Exception x"
  by (auto simp: task_handler_try_def
      split: option.splits sum.splits prod.splits flow.splits if_splits
      dest: py_slice_from5_raises received_block_raises started_block_raises
        other_block_raises report_raises)

text \<open>The blocks of the handler neither log nor send anything; \<^verbatim>\<open>report\<close> does not when it raises.\<close>

lemma tuids_contains_quiet:
  "tuids_contains clk k s = (b, s') \<Longrightarrow> logged s' = logged s \<and> sink s' = sink s"
  by (auto simp: tuids_contains_def split: prod.splits)

lemma tuids_getitem_quiet:
  "tuids_getitem clk k s = (r, s') \<Longrightarrow> logged s' = logged s \<and> sink s' = sink s"
  by (auto simp: tuids_getitem_def split: prod.splits)

lemma received_block_quiet:
  "received_block clk e u s = (f, s') \<Longrightarrow> logged s' = logged s \<and> sink s' = sink s"
  by (auto simp: received_block_def tuids_dict_update_def split: option.splits sum.splits)

lemma other_block_quiet:
  "other_block clk u s = (f, s') \<Longrightarrow> logged s' = logged s \<and> sink s' = sink s"
  by (auto simp: other_block_def split: sum.splits prod.splits bool.splits
      dest!: tuids_contains_quiet tuids_getitem_quiet)

lemma started_block_quiet:
  "started_block clk e u s = (f, s') \<Longrightarrow> logged s' = logged s \<and> sink s' = sink s"
  by (auto simp: started_block_def split: option.splits sum.splits prod.splits bool.splits
      dest!: tuids_contains_quiet tuids_getitem_quiet)

lemma terminal_block_quiet:
  "terminal_block clk e k d s = (f, s') \<Longrightarrow> logged s' = logged s \<and> sink s' = sink s"
  by (auto simp: terminal_block_def
      split: option.splits sum.splits prod.splits flow.splits if_splits
      dest!: tuids_getitem_quiet)

lemma report_Raise_quiet:
  "report clk e cn k nm d s = (Raise x, s') \<Longrightarrow> logged s' = logged s \<and> sink s' = sink s"
  by (auto simp: report_def split: prod.splits flow.splits if_splits
      dest!: terminal_block_quiet)

lemma task_handler_try_Raise_quiet:
  assumes "task_handler_try clk e s = (Raise x, s')"
  shows "logged s' = logged s \<and> sink s' = sink s"
proof -
  from assms consider
    (fields) ty cname uuid where
      "e ''type'' = Some ty" "py_slice_from5 ty = Inr cname" "e ''uuid'' = Some uuid"
    | (early) "s' = s"
    by (auto simp: task_handler_try_def split: option.splits sum.splits)
  then show ?thesis
  proof cases
    case early
    then show ?thesis by simp
  next
    case fields
    define blk where "blk =
      (if cname = PStr ''received'' then received_block clk e uuid s
       else if cname = PStr ''started'' then started_block clk e uuid s
       else other_block clk uuid s)"
    obtain f1 s1 where b: "blk = (f1, s1)" by (cases blk)
    have q1: "logged s1 = logged s \<and> sink s1 = sink s"
      using b received_block_quiet[of clk e uuid s f1 s1]
        started_block_quiet[of clk e uuid s f1 s1] other_block_quiet[of clk uuid s f1 s1]
      by (auto simp: blk_def split: if_splits)
    have try_eq: "task_handler_try clk e s =
        (case blk of
           (Next (k, nm, duration), s1) \<Rightarrow> report clk e cname k nm duration s1
         | (Return, s1) \<Rightarrow> (Return, s1)
         | (Raise x, s1) \<Rightarrow> (Raise x, s1))"
      using fields by (simp add: task_handler_try_def blk_def)
    show ?thesis
    proof (cases f1)
      case Return
      with assms b try_eq show ?thesis by simp
    next
      case (Raise y)
      with assms b try_eq q1 show ?thesis by simp
    next
      case (Next p)
      obtain k nm d where p: "p = (k, nm, d)" by (cases p)
      from assms b Next p try_eq have "report clk e cname k nm d s1 = (Raise x, s')"
        by simp
      from report_Raise_quiet[OF this] q1 show ?thesis by simp
    qed
  qed
qed

text \<open>
  C6. Whatever the payload of the event (fields missing, fields of any type) and whatever
  the state, no exception leaves \<^verbatim>\<open>task_handler\<close>: everything the \<^verbatim>\<open>try\<close> body raises is an
  \<open>Exception\<close>, and the handler catches it and logs it with the event: the log gains
  exactly the entry of that exception, and nothing is sent to the sink.
\<close>

theorem handler_never_propagates:
  "fst (task_handler clk e s) = None \<and>
   (\<forall>x s1. task_handler_try clk e s = (Raise x, s1) \<longrightarrow>
      logged (snd (task_handler clk e s)) = logged s @ [Exception_task x e] \<and>
      sink (snd (task_handler clk e s)) = sink s \<and>
      tuids (snd (task_handler clk e s)) = tuids s1)"
proof (intro conjI allI impI)
  show "fst (task_handler clk e s) = None"
    by (auto simp: task_handler_def split: prod.splits flow.splits
        dest: task_handler_try_raises)
next
  fix x s1
  assume r: "task_handler_try clk e s = (Raise x, s1)"
  from task_handler_try_raises[OF r] r
  have h: "snd (task_handler clk e s) = log_call (Exception_task x e) s1"
    by (simp add: task_handler_def)
  from task_handler_try_Raise_quiet[OF r]
  have q: "logged s1 = logged s" "sink s1 = sink s" by simp_all
  show "logged (snd (task_handler clk e s)) = logged s @ [Exception_task x e]"
    by (simp add: h log_call_def q)
  show "sink (snd (task_handler clk e s)) = sink s"
    by (simp add: h log_call_def q)
  show "tuids (snd (task_handler clk e s)) = tuids s1"
    by (simp add: h log_call_def)
qed

theorem handler_never_propagates_witness:
  "task_handler_try (clock_at 0) (task_event ''received'' ''A'' (PFloat 0)) init
     = (Raise KeyError, init) \<and>
   fst (task_handler (clock_at 0) (task_event ''received'' ''A'' (PFloat 0)) init) = None \<and>
   logged (snd (task_handler (clock_at 0) (task_event ''received'' ''A'' (PFloat 0)) init))
     = [Exception_task KeyError (task_event ''received'' ''A'' (PFloat 0))] \<and>
   sink (snd (task_handler (clock_at 0) (task_event ''received'' ''A'' (PFloat 0)) init)) = []"
proof -
  have t: "task_handler_try (clock_at 0) (task_event ''received'' ''A'' (PFloat 0)) init
      = (Raise KeyError, init)"
    by (simp add: task_handler_try_def received_block_def task_event_def)
  from handler_never_propagates
    [of "clock_at 0" "task_event ''received'' ''A'' (PFloat 0)" init] t
  have "fst (task_handler (clock_at 0) (task_event ''received'' ''A'' (PFloat 0)) init) = None"
    and "logged (snd (task_handler (clock_at 0) (task_event ''received'' ''A'' (PFloat 0)) init))
      = logged init @ [Exception_task KeyError (task_event ''received'' ''A'' (PFloat 0))]"
    and "sink (snd (task_handler (clock_at 0) (task_event ''received'' ''A'' (PFloat 0)) init))
      = sink init"
    by blast+
  with t show ?thesis by (simp add: init_def)
qed


section \<open>Lemmas on the store and on the paths of the handler\<close>

lemma map_of_ed_setitem: "map_of (ed_setitem now k v d) k = Some (v, now)"
  by (simp add: ed_setitem_def Let_def update_conv')

lemma received_not_terminal: "PStr ''received'' \<notin> set terminal_kinds"
  by (simp add: terminal_kinds_def)

lemma ed_view_delete_invisible:
  "ed_view now d k = None \<Longrightarrow> ed_view now (AList.delete k d) = ed_view now d"
  by (rule ext) (auto simp: ed_view_def delete_conv' split: option.splits if_splits)

lemma ed_contains_invisible:
  assumes "ed_view now d k = None"
  shows "fst (ed_contains now k d) = False"
    and "ed_view now (snd (ed_contains now k d)) = ed_view now d"
    and "map_of d k = None \<Longrightarrow> snd (ed_contains now k d) = d"
proof -
  show "fst (ed_contains now k d) = False"
    using assms by (auto simp: ed_contains_def ed_view_def split: option.splits if_splits)
  show "ed_view now (snd (ed_contains now k d)) = ed_view now d"
    using assms ed_view_delete_invisible[OF assms]
    by (auto simp: ed_contains_def split: option.splits if_splits)
  show "map_of d k = None \<Longrightarrow> snd (ed_contains now k d) = d"
    by (simp add: ed_contains_def)
qed

lemma tuids_contains_eq:
  "tuids_contains clk k s =
     (fst (ed_contains (clk (ticks s)) k (tuids s)),
      s\<lparr>tuids := snd (ed_contains (clk (ticks s)) k (tuids s)), ticks := Suc (ticks s)\<rparr>)"
  by (simp add: tuids_contains_def split: prod.splits)

lemma blocks_invisible:
  assumes "py_hash uuid = Inr k" and "now = clk (ticks s)" and "ed_view now (tuids s) k = None"
  shows "started_block clk e uuid s
      = (Return, s\<lparr>tuids := snd (ed_contains now k (tuids s)), ticks := Suc (ticks s)\<rparr>)"
    and "other_block clk uuid s
      = (Return, s\<lparr>tuids := snd (ed_contains now k (tuids s)), ticks := Suc (ticks s)\<rparr>)"
  using assms(1,2) ed_contains_invisible(1)[OF assms(3)]
  by (simp_all add: started_block_def other_block_def tuids_contains_eq)

lemma ed_contains_live:
  "map_of d k = Some (r, t) \<Longrightarrow> now - t < max_age_seconds \<Longrightarrow> ed_contains now k d = (True, d)"
  by (simp add: ed_contains_def)

lemma ed_getitem_live:
  "map_of d k = Some (r, t) \<Longrightarrow> now - t < max_age_seconds \<Longrightarrow> ed_getitem now k d = (Inr r, d)"
  by (simp add: ed_getitem_def)

lemma tuids_contains_live:
  "map_of (tuids s) k = Some (r, t) \<Longrightarrow> clk (ticks s) - t < max_age_seconds \<Longrightarrow>
   tuids_contains clk k s = (True, s\<lparr>ticks := Suc (ticks s)\<rparr>)"
  by (simp add: tuids_contains_def ed_contains_live)

lemma tuids_getitem_live:
  "map_of (tuids s) k = Some (r, t) \<Longrightarrow> clk (ticks s) - t < max_age_seconds \<Longrightarrow>
   tuids_getitem clk k s = (Inr r, s\<lparr>ticks := Suc (ticks s)\<rparr>)"
  by (simp add: tuids_getitem_def ed_getitem_live)

lemma map_of_ed_set_started:
  "map_of d k = Some (r, t) \<Longrightarrow> map_of (ed_set_started k ts d) k = Some (r\<lparr>started := ts\<rparr>, t)"
  by (simp add: ed_set_started_def map_of_map_entry)

lemma other_block_live:
  assumes "py_hash uuid = Inr k" and "map_of (tuids s) k = Some (r, t)"
    and "clk (ticks s) - t < max_age_seconds"
    and "clk (Suc (ticks s)) - t < max_age_seconds"
  shows "other_block clk uuid s = (Next (k, name r, PNone), s\<lparr>ticks := Suc (Suc (ticks s))\<rparr>)"
  using assms by (simp add: other_block_def tuids_contains_live tuids_getitem_live)

lemma started_block_live:
  assumes "py_hash uuid = Inr k" and "e ''timestamp'' = Some ts"
    and "map_of (tuids s) k = Some (r, t)"
    and "\<forall>i<5. clk (ticks s + i) - t < max_age_seconds"
    and "py_sub ts (received r) = Inr d"
  shows "started_block clk e uuid s =
    (Next (k, name r, d), s\<lparr>tuids := ed_set_started k ts (tuids s), ticks := ticks s + 5\<rparr>)"
proof -
  have l0: "clk (ticks s) - t < max_age_seconds"
    using assms(4)[rule_format, of 0] by simp
  have l1: "clk (Suc (ticks s)) - t < max_age_seconds"
    using assms(4)[rule_format, of 1] by simp
  have l2: "clk (Suc (Suc (ticks s))) - t < max_age_seconds"
    using assms(4)[rule_format, of 2] by (simp add: eval_nat_numeral)
  have l3: "clk (Suc (Suc (Suc (ticks s)))) - t < max_age_seconds"
    using assms(4)[rule_format, of 3] by (simp add: eval_nat_numeral)
  have l4: "clk (Suc (Suc (Suc (Suc (ticks s))))) - t < max_age_seconds"
    using assms(4)[rule_format, of 4] by (simp add: eval_nat_numeral)
  show ?thesis
    using assms(1,2,3,5) l0 l1 l2 l3 l4
    by (simp add: started_block_def tuids_contains_live tuids_getitem_live map_of_ed_set_started)
qed

lemma terminal_block_unstarted:
  assumes "map_of (tuids s) k = Some (r, t)"
    and "clk (ticks s) - t < max_age_seconds"
    and "\<not> py_truthy (started r)"
  shows "terminal_block clk e k duration s =
    (Next duration, s\<lparr>tuids := AList.delete k (tuids s), ticks := Suc (ticks s)\<rparr>)"
  using assms
  by (simp add: terminal_block_def tuids_getitem_live ed_delitem_def)

lemma terminal_block_started:
  assumes "map_of (tuids s) k = Some (r, t)"
    and "clk (ticks s) - t < max_age_seconds"
    and "clk (Suc (ticks s)) - t < max_age_seconds"
    and "py_truthy (started r)"
    and "e ''timestamp'' = Some ts"
    and "py_sub ts (started r) = Inr d"
  shows "terminal_block clk e k duration s =
    (Next d, s\<lparr>tuids := AList.delete k (tuids s), ticks := Suc (Suc (ticks s))\<rparr>)"
  using assms
  by (simp add: terminal_block_def tuids_getitem_live ed_delitem_def)

lemma py_or_float: "py_or (PFloat x) (PFloat 0) = PFloat x"
  by (simp add: py_or_def)

lemma py_or_None: "py_or PNone v = v"
  by (simp add: py_or_def)

lemma py_sub_float: "py_sub (PFloat x) (PFloat y) = Inr (PFloat (x - y))"
  by (simp add: py_sub_def int_too_large_def)

lemma started_not_terminal: "PStr ''started'' \<notin> set terminal_kinds"
  by (simp add: terminal_kinds_def)

lemma terminal_kind_cases:
  "PStr kind \<in> set terminal_kinds \<Longrightarrow> kind \<noteq> ''received'' \<and> kind \<noteq> ''started''"
  by (auto simp: terminal_kinds_def)

lemma task_handler_received:
  assumes "is_task_event ''received'' uuid e" and "py_hash uuid = Inr k"
    and "e ''name'' = Some nm" and "e ''timestamp'' = Some ts" and "py_truthy nm"
  shows "task_handler clk e s =
    (None,
     sink_call (TaskStats nm (PStr ''received'') (PFloat 0))
       (log_call
          (Debug_task
             (length (ed_setitem (clk (ticks s)) k
                \<lparr>name = nm, received = ts, started = PInt 0\<rparr> (tuids s)))
             nm (PStr ''received'') PNone)
          (tuids_dict_update clk k \<lparr>name = nm, received = ts, started = PInt 0\<rparr> s)))"
  using assms
  by (simp add: task_handler_def task_handler_try_def is_task_event_def received_block_def
      report_def received_not_terminal py_or_None tuids_dict_update_def)

lemma task_handler_started_live:
  assumes "is_task_event ''started'' uuid e" and "py_hash uuid = Inr k"
    and "e ''timestamp'' = Some ts"
    and "map_of (tuids s) k = Some (r, t)"
    and "\<forall>i<5. clk (ticks s + i) - t < max_age_seconds"
    and "py_sub ts (received r) = Inr d"
    and "py_truthy (name r)"
  shows "task_handler clk e s =
    (None,
     sink_call (TaskStats (name r) (PStr ''started'') (py_or d (PFloat 0)))
       (log_call
          (Debug_task (length (ed_set_started k ts (tuids s))) (name r) (PStr ''started'') d)
          (s\<lparr>tuids := ed_set_started k ts (tuids s), ticks := ticks s + 5\<rparr>)))"
  using assms(1,7) started_block_live[where clk=clk and s=s and e=e, OF assms(2,3,4,5,6)]
  by (simp add: task_handler_def task_handler_try_def is_task_event_def
      report_def started_not_terminal)

lemma task_handler_other_live:
  assumes "is_task_event kind uuid e" and "py_hash uuid = Inr k"
    and "kind \<noteq> ''received''" and "kind \<noteq> ''started''"
    and "PStr kind \<notin> set terminal_kinds"
    and "map_of (tuids s) k = Some (r, t)"
    and "clk (ticks s) - t < max_age_seconds"
    and "clk (Suc (ticks s)) - t < max_age_seconds"
    and "py_truthy (name r)"
  shows "task_handler clk e s =
    (None,
     sink_call (TaskStats (name r) (PStr kind) (PFloat 0))
       (log_call (Debug_task (length (tuids s)) (name r) (PStr kind) PNone)
          (s\<lparr>ticks := Suc (Suc (ticks s))\<rparr>)))"
  using assms(1,3,4,5,9) other_block_live[where clk=clk and s=s, OF assms(2,6,7,8)]
  by (simp add: task_handler_def task_handler_try_def is_task_event_def
      report_def py_or_None)

lemma task_handler_terminal_live:
  assumes "PStr kind \<in> set terminal_kinds"
    and "is_task_event kind uuid e" and "py_hash uuid = Inr k"
    and "map_of (tuids s) k = Some (r, t)"
    and "\<forall>i<4. clk (ticks s + i) - t < max_age_seconds"
    and "py_truthy (name r)"
    and "py_truthy (started r)"
    and "e ''timestamp'' = Some ts"
    and "py_sub ts (started r) = Inr d"
  shows "task_handler clk e s =
    (None,
     sink_call (TaskStats (name r) (PStr kind) (py_or d (PFloat 0)))
       (log_call
          (Debug_task (length (AList.delete k (tuids s))) (name r) (PStr kind) d)
          (s\<lparr>tuids := AList.delete k (tuids s), ticks := ticks s + 4\<rparr>)))"
proof -
  have l0: "clk (ticks s) - t < max_age_seconds"
    using assms(5)[rule_format, of 0] by simp
  have l1: "clk (Suc (ticks s)) - t < max_age_seconds"
    using assms(5)[rule_format, of 1] by simp
  have l2: "clk (Suc (Suc (ticks s))) - t < max_age_seconds"
    using assms(5)[rule_format, of 2] by (simp add: eval_nat_numeral)
  have l3: "clk (Suc (Suc (Suc (ticks s)))) - t < max_age_seconds"
    using assms(5)[rule_format, of 3] by (simp add: eval_nat_numeral)
  have ob: "other_block clk uuid s = (Next (k, name r, PNone), s\<lparr>ticks := Suc (Suc (ticks s))\<rparr>)"
    by (rule other_block_live[where clk=clk and s=s, OF assms(3,4) l0 l1])
  have tb: "terminal_block clk e k PNone (s\<lparr>ticks := Suc (Suc (ticks s))\<rparr>) =
      (Next d, s\<lparr>tuids := AList.delete k (tuids s), ticks := ticks s + 4\<rparr>)"
    using terminal_block_started[of "s\<lparr>ticks := Suc (Suc (ticks s))\<rparr>" k r t clk e ts d PNone]
      assms(4,7,8,9) l2 l3
    by (simp add: eval_nat_numeral)
  show ?thesis
    using assms(1,2,6) terminal_kind_cases[OF assms(1)] ob tb
    by (simp add: task_handler_def task_handler_try_def is_task_event_def report_def)
qed

lemma task_handler_terminal_unstarted:
  assumes "PStr kind \<in> set terminal_kinds"
    and "is_task_event kind uuid e" and "py_hash uuid = Inr k"
    and "map_of (tuids s) k = Some (r, t)"
    and "\<forall>i<3. clk (ticks s + i) - t < max_age_seconds"
    and "py_truthy (name r)"
    and "\<not> py_truthy (started r)"
  shows "task_handler clk e s =
    (None,
     sink_call (TaskStats (name r) (PStr kind) (PFloat 0))
       (log_call
          (Debug_task (length (AList.delete k (tuids s))) (name r) (PStr kind) PNone)
          (s\<lparr>tuids := AList.delete k (tuids s), ticks := ticks s + 3\<rparr>)))"
proof -
  have l0: "clk (ticks s) - t < max_age_seconds"
    using assms(5)[rule_format, of 0] by simp
  have l1: "clk (Suc (ticks s)) - t < max_age_seconds"
    using assms(5)[rule_format, of 1] by simp
  have l2: "clk (Suc (Suc (ticks s))) - t < max_age_seconds"
    using assms(5)[rule_format, of 2] by (simp add: eval_nat_numeral)
  have ob: "other_block clk uuid s = (Next (k, name r, PNone), s\<lparr>ticks := Suc (Suc (ticks s))\<rparr>)"
    by (rule other_block_live[where clk=clk and s=s, OF assms(3,4) l0 l1])
  have tb: "terminal_block clk e k PNone (s\<lparr>ticks := Suc (Suc (ticks s))\<rparr>) =
      (Next PNone, s\<lparr>tuids := AList.delete k (tuids s), ticks := ticks s + 3\<rparr>)"
    using terminal_block_unstarted[of "s\<lparr>ticks := Suc (Suc (ticks s))\<rparr>" k r t clk e PNone]
      assms(4,7) l2
    by (simp add: eval_nat_numeral)
  show ?thesis
    using assms(1,2,6) terminal_kind_cases[OF assms(1)] ob tb
    by (simp add: task_handler_def task_handler_try_def is_task_event_def report_def py_or_None)
qed

lemma event_dispatcher_task:
  assumes "is_task_event kind uuid e" and "KStr (''task-'' @ kind) \<in> set task_types"
  shows "event_dispatcher clk e s = (None, snd (task_handler clk e s))"
  using assms by (simp add: event_dispatcher_def is_task_event_def)

lemma terminal_task_type:
  "PStr kind \<in> set terminal_kinds \<Longrightarrow> KStr (''task-'' @ kind) \<in> set task_types"
  by (auto simp: terminal_kinds_def task_types_def)

lemma task_types_basic:
  "KStr (''task-'' @ ''received'') \<in> set task_types"
  "KStr (''task-'' @ ''started'') \<in> set task_types"
  "KStr (''task-'' @ ''sent'') \<in> set task_types"
  by (simp_all add: task_types_def)

lemma py_sub_succeeds:
  "(\<exists>d. py_sub a b = Inr d) \<longleftrightarrow>
     as_num a \<noteq> None \<and> as_num b \<noteq> None \<and>
     (as_int a \<noteq> None \<and> as_int b \<noteq> None \<or> \<not> int_too_large a \<and> \<not> int_too_large b)"
  by (cases a; cases b) (auto simp: py_sub_def)

lemma tuids_getitem_cases:
  assumes "map_of (tuids s) k = Some (r, t)"
  shows "tuids_getitem clk k s = (Inr r, s\<lparr>ticks := Suc (ticks s)\<rparr>) \<or>
    tuids_getitem clk k s =
      (Inl KeyError, s\<lparr>tuids := AList.delete k (tuids s), ticks := Suc (ticks s)\<rparr>)"
  using assms by (simp add: tuids_getitem_def ed_getitem_def)

lemma map_of_delete_same: "map_of (AList.delete k d) k = None"
  by (simp add: delete_conv')

lemma terminal_block_deletes:
  assumes "map_of (tuids s) k = Some (r, t)"
    and "py_truthy (started r) \<longrightarrow>
      (\<exists>ts d. e ''timestamp'' = Some ts \<and> py_sub ts (started r) = Inr d)"
  shows "tuids (snd (terminal_block clk e k duration s)) = AList.delete k (tuids s)"
proof -
  let ?s1 = "s\<lparr>ticks := Suc (ticks s)\<rparr>"
  have m1: "map_of (tuids ?s1) k = Some (r, t)" using assms(1) by simp
  from tuids_getitem_cases[OF assms(1), of clk] show ?thesis
  proof
    assume g1: "tuids_getitem clk k s = (Inr r, ?s1)"
    show ?thesis
    proof (cases "py_truthy (started r)")
      case False
      with g1 assms(1) show ?thesis
        by (simp add: terminal_block_def ed_delitem_def)
    next
      case True
      with assms(2) obtain ts d where ts: "e ''timestamp'' = Some ts"
        and d: "py_sub ts (started r) = Inr d"
        by blast
      from tuids_getitem_cases[OF m1, of clk] show ?thesis
      proof
        assume "tuids_getitem clk k ?s1 = (Inr r, ?s1\<lparr>ticks := Suc (ticks ?s1)\<rparr>)"
        with g1 True assms(1) ts d show ?thesis
          by (simp add: terminal_block_def ed_delitem_def)
      next
        assume "tuids_getitem clk k ?s1 =
          (Inl KeyError, ?s1\<lparr>tuids := AList.delete k (tuids ?s1), ticks := Suc (ticks ?s1)\<rparr>)"
        with g1 True assms(1) ts show ?thesis
          by (simp add: terminal_block_def)
      qed
    qed
  next
    assume "tuids_getitem clk k s =
      (Inl KeyError, s\<lparr>tuids := AList.delete k (tuids s), ticks := Suc (ticks s)\<rparr>)"
    then show ?thesis by (simp add: terminal_block_def)
  qed
qed

lemma tuids_contains_True:
  "tuids_contains clk k s = (True, s') \<Longrightarrow>
   s' = s\<lparr>ticks := Suc (ticks s)\<rparr> \<and> (\<exists>r t. map_of (tuids s) k = Some (r, t))"
  by (auto simp: tuids_contains_def ed_contains_def split: option.splits if_splits)

lemma tuids_contains_False:
  "tuids_contains clk k s = (False, s') \<Longrightarrow>
   sink s' = sink s \<and> logged s' = logged s \<and>
   (tuids s' = tuids s \<or> tuids s' = AList.delete k (tuids s))"
  by (auto simp: tuids_contains_def ed_contains_def split: option.splits if_splits)

lemma tuids_getitem_Inr:
  "tuids_getitem clk k s = (Inr r, s') \<Longrightarrow>
   s' = s\<lparr>ticks := Suc (ticks s)\<rparr> \<and> (\<exists>t. map_of (tuids s) k = Some (r, t))"
  by (auto simp: tuids_getitem_def ed_getitem_def split: option.splits if_splits)

lemma tuids_getitem_Inl:
  "tuids_getitem clk k s = (Inl x, s') \<Longrightarrow>
   sink s' = sink s \<and> logged s' = logged s \<and>
   (tuids s' = tuids s \<or> tuids s' = AList.delete k (tuids s))"
  by (auto simp: tuids_getitem_def ed_getitem_def split: option.splits if_splits)

lemma received_block_Next:
  "received_block clk e uuid s = (Next (k, nm, d), s') \<Longrightarrow> d = PNone \<and> sink s' = sink s"
  by (auto simp: received_block_def tuids_dict_update_def split: option.splits sum.splits)

lemma received_block_sink:
  "received_block clk e uuid s = (f, s') \<Longrightarrow> sink s' = sink s"
  by (auto simp: received_block_def tuids_dict_update_def split: option.splits sum.splits)

lemma other_block_Next:
  "other_block clk uuid s = (Next (k, nm, d), s') \<Longrightarrow>
   py_hash uuid = Inr k \<and> d = PNone \<and> s' = s\<lparr>ticks := Suc (Suc (ticks s))\<rparr> \<and>
   (\<exists>r t. map_of (tuids s) k = Some (r, t) \<and> nm = name r)"
  by (auto simp: other_block_def split: sum.splits prod.splits bool.splits
      dest!: tuids_contains_True tuids_getitem_Inr)

lemma other_block_sink:
  "other_block clk uuid s = (f, s') \<Longrightarrow> sink s' = sink s"
  by (auto simp: other_block_def split: sum.splits prod.splits bool.splits
      dest!: tuids_contains_True tuids_contains_False tuids_getitem_Inr tuids_getitem_Inl)

lemma other_block_tuids:
  "other_block clk uuid s = (f, s') \<Longrightarrow> py_hash uuid = Inr k \<Longrightarrow>
   tuids s' = tuids s \<or> tuids s' = AList.delete k (tuids s)"
  by (auto simp: other_block_def split: sum.splits prod.splits bool.splits
      dest!: tuids_contains_True tuids_contains_False tuids_getitem_Inr tuids_getitem_Inl)

lemma started_block_sink:
  "started_block clk e uuid s = (f, s') \<Longrightarrow> sink s' = sink s"
  by (auto simp: started_block_def split: sum.splits prod.splits bool.splits option.splits
      dest!: tuids_contains_True tuids_contains_False tuids_getitem_Inr tuids_getitem_Inl)

lemma started_block_Next:
  "started_block clk e uuid s = (Next (k, nm, d), s') \<Longrightarrow>
   py_hash uuid = Inr k \<and>
   (\<exists>r t ts. map_of (tuids s) k = Some (r, t) \<and> nm = name r \<and>
      e ''timestamp'' = Some ts \<and> py_sub ts (received r) = Inr d)"
  by (auto simp: started_block_def map_of_ed_set_started
      split: sum.splits prod.splits bool.splits option.splits
      dest!: tuids_contains_True tuids_getitem_Inr)

lemma terminal_block_sink:
  "terminal_block clk e k duration s = (f, s') \<Longrightarrow> sink s' = sink s"
  by (auto simp: terminal_block_def
      split: sum.splits prod.splits option.splits if_splits flow.splits
      dest!: tuids_getitem_Inr tuids_getitem_Inl)

lemma terminal_block_Next:
  "terminal_block clk e k duration s = (Next d, s') \<Longrightarrow>
   (\<exists>r t. map_of (tuids s) k = Some (r, t) \<and>
      (if py_truthy (started r)
       then (\<exists>ts. e ''timestamp'' = Some ts \<and> py_sub ts (started r) = Inr d)
       else d = duration))"
  by (auto simp: terminal_block_def
      split: sum.splits prod.splits option.splits if_splits flow.splits
      dest!: tuids_getitem_Inr)

lemma py_or_not_None: "py_or d (PFloat 0) \<noteq> PNone"
  by (cases d) (auto simp: py_or_def)

lemma report_emits:
  assumes "report clk e cn k nm d s = (f, s')" and "sink s' \<noteq> sink s"
  shows "\<exists>d'. sink s' = sink s @ [TaskStats nm cn (py_or d' (PFloat 0))] \<and>
     (if cn \<in> set terminal_kinds
      then (\<exists>s''. terminal_block clk e k d s = (Next d', s''))
      else d' = d)"
proof (cases "cn \<in> set terminal_kinds")
  case False
  with assms show ?thesis
    by (auto simp: report_def log_call_def sink_call_def split: if_splits)
next
  case True
  obtain f1 s1 where t: "terminal_block clk e k d s = (f1, s1)"
    by (cases "terminal_block clk e k d s")
  from terminal_block_sink[OF t] have "sink s1 = sink s" .
  with assms True t show ?thesis
    by (cases f1) (auto simp: report_def log_call_def sink_call_def split: if_splits)
qed

lemma task_handler_emits:
  assumes "is_task_event kind uuid e" and "py_hash uuid = Inr k"
    and "sink (snd (task_handler clk e s)) \<noteq> sink s"
  shows "\<exists>nm d'. sink (snd (task_handler clk e s))
        = sink s @ [TaskStats nm (PStr kind) (py_or d' (PFloat 0))] \<and>
     (if kind = ''received'' then d' = PNone
      else if kind = ''started'' then
        (\<exists>r t ts. map_of (tuids s) k = Some (r, t) \<and> e ''timestamp'' = Some ts \<and>
           py_sub ts (received r) = Inr d')
      else if PStr kind \<in> set terminal_kinds then
        (\<exists>r t. map_of (tuids s) k = Some (r, t) \<and>
           (if py_truthy (started r)
            then (\<exists>ts. e ''timestamp'' = Some ts \<and> py_sub ts (started r) = Inr d')
            else d' = PNone))
      else d' = PNone)"
proof -
  define blk where "blk =
    (if PStr kind = PStr ''received'' then received_block clk e uuid s
     else if PStr kind = PStr ''started'' then started_block clk e uuid s
     else other_block clk uuid s)"
  obtain f1 s1 where b: "blk = (f1, s1)" by (cases blk)
  have try_eq: "task_handler_try clk e s =
      (case blk of
         (Next (k, nm, duration), s1) \<Rightarrow> report clk e (PStr kind) k nm duration s1
       | (Return, s1) \<Rightarrow> (Return, s1)
       | (Raise x, s1) \<Rightarrow> (Raise x, s1))"
    using assms(1) by (simp add: task_handler_try_def is_task_event_def blk_def)
  have sink1: "sink s1 = sink s"
    using b received_block_sink[of clk e uuid s f1 s1] started_block_sink[of clk e uuid s f1 s1]
      other_block_sink[of clk uuid s f1 s1]
    by (auto simp: blk_def split: if_splits)
  have sink_snd: "\<And>p. sink (snd (case p of (Raise ex, s1) \<Rightarrow>
            if is_Exception ex then (None, log_call (Exception_task ex e) s1) else (Some ex, s1)
          | (Return, s1) \<Rightarrow> (None, s1) | (Next u, s1) \<Rightarrow> (None, s1))) = sink (snd p)"
    by (auto simp: log_call_def split: prod.splits flow.splits)
  have out: "sink (snd (task_handler clk e s)) = sink (snd (task_handler_try clk e s))"
    unfolding task_handler_def by (rule sink_snd)
  show ?thesis
  proof (cases f1)
    case Return
    with b try_eq out sink1 assms(3) show ?thesis by simp
  next
    case (Raise x)
    with b try_eq out sink1 assms(3) show ?thesis by simp
  next
    case (Next p)
    obtain k' nm d where p: "p = (k', nm, d)" by (cases p)
    obtain f2 s2 where r: "report clk e (PStr kind) k' nm d s1 = (f2, s2)"
      by (cases "report clk e (PStr kind) k' nm d s1")
    from b Next p r try_eq have t2: "task_handler_try clk e s = (f2, s2)" by simp
    with out assms(3) sink1 have ne: "sink s2 \<noteq> sink s1" by simp
    from report_emits[OF r ne] obtain d' where
      d': "sink s2 = sink s1 @ [TaskStats nm (PStr kind) (py_or d' (PFloat 0))]"
      and dd: "if PStr kind \<in> set terminal_kinds
        then (\<exists>s''. terminal_block clk e k' d s1 = (Next d', s''))
        else d' = d"
      by blast
    have emitted: "sink (snd (task_handler clk e s))
        = sink s @ [TaskStats nm (PStr kind) (py_or d' (PFloat 0))]"
      using out t2 d' sink1 by simp
    show ?thesis
    proof (cases "kind = ''received''")
      case True
      with b Next p have "received_block clk e uuid s = (Next (k', nm, d), s1)"
        by (simp add: blk_def)
      from received_block_Next[OF this] have "d = PNone" by simp
      with dd True have "d' = PNone" by (simp add: received_not_terminal)
      with emitted True show ?thesis by auto
    next
      case nrec: False
      show ?thesis
      proof (cases "kind = ''started''")
        case True
        with b Next p have "started_block clk e uuid s = (Next (k', nm, d), s1)"
          by (simp add: blk_def)
        from started_block_Next[OF this] assms(2) obtain r t ts where
          "map_of (tuids s) k = Some (r, t)" "e ''timestamp'' = Some ts"
          "py_sub ts (received r) = Inr d"
          by auto
        moreover from dd True have "d' = d" by (simp add: started_not_terminal)
        ultimately show ?thesis using emitted True by auto
      next
        case nst: False
        with nrec b Next p have ob: "other_block clk uuid s = (Next (k', nm, d), s1)"
          by (simp add: blk_def)
        from other_block_Next[OF ob] assms(2) have kk: "k' = k" and dN: "d = PNone"
          and s1: "s1 = s\<lparr>ticks := Suc (Suc (ticks s))\<rparr>"
          by auto
        show ?thesis
        proof (cases "PStr kind \<in> set terminal_kinds")
          case False
          with dd dN have "d' = PNone" by simp
          with emitted nrec nst False show ?thesis by auto
        next
          case True
          with dd obtain s'' where "terminal_block clk e k' d s1 = (Next d', s'')" by auto
          from terminal_block_Next[OF this] kk dN s1 obtain r t where
            "map_of (tuids s) k = Some (r, t)"
            "if py_truthy (started r)
             then (\<exists>ts. e ''timestamp'' = Some ts \<and> py_sub ts (started r) = Inr d')
             else d' = PNone"
            by auto
          with emitted nrec nst True show ?thesis by auto
        qed
      qed
    qed
  qed
qed

lemma py_or_sub_float:
  "py_sub (PFloat x) (PFloat y) = Inr d \<Longrightarrow>
   py_or d (PFloat 0) = PFloat (x - y) \<and> (is_nonneg_float (py_or d (PFloat 0)) \<longleftrightarrow> y \<le> x)"
  by (auto simp: py_sub_def py_or_def is_nonneg_float_def int_too_large_def)

lemma task_handler_invisible:
  assumes "is_task_event kind uuid e" and "kind \<noteq> ''received''"
    and "py_hash uuid = Inr k" and "ed_view (clk (ticks s)) (tuids s) k = None"
  shows "task_handler clk e s =
    (None, s\<lparr>tuids := snd (ed_contains (clk (ticks s)) k (tuids s)), ticks := Suc (ticks s)\<rparr>)"
  using assms(1,2)
    blocks_invisible(1)[of uuid k "clk (ticks s)" clk s e]
    blocks_invisible(2)[of uuid k "clk (ticks s)" clk s] assms(3,4)
  by (simp add: task_handler_def task_handler_try_def is_task_event_def)

lemma sent_kind:
  "''sent'' \<noteq> ''received''" "''sent'' \<noteq> ''started''" "PStr ''sent'' \<notin> set terminal_kinds"
  by (simp_all add: terminal_kinds_def)

lemma task_handler_sent_tuids:
  assumes "is_task_event ''sent'' uuid e" and "py_hash uuid = Inr k"
  shows "tuids (snd (task_handler clk e s)) = tuids s \<or>
    tuids (snd (task_handler clk e s)) = AList.delete k (tuids s)"
proof -
  obtain f1 s1 where b: "other_block clk uuid s = (f1, s1)"
    by (cases "other_block clk uuid s")
  note t1 = other_block_tuids[OF b assms(2)]
  have try_eq: "task_handler_try clk e s =
      (case other_block clk uuid s of
         (Next (k, nm, duration), s1) \<Rightarrow> report clk e (PStr ''sent'') k nm duration s1
       | (Return, s1) \<Rightarrow> (Return, s1)
       | (Raise x, s1) \<Rightarrow> (Raise x, s1))"
    using assms(1) by (simp add: task_handler_try_def is_task_event_def)
  have rep: "\<And>k nm d s1. tuids (snd (report clk e (PStr ''sent'') k nm d s1)) = tuids s1"
    by (simp add: report_def log_call_def sink_call_def sent_kind)
  have "tuids (snd (task_handler_try clk e s)) = tuids s1"
    using b rep by (cases f1) (auto simp: try_eq)
  moreover have "tuids (snd (task_handler clk e s)) = tuids (snd (task_handler_try clk e s))"
    by (auto simp: task_handler_def log_call_def split: prod.splits flow.splits)
  ultimately show ?thesis using t1 by simp
qed

lemma fold_report_queue:
  "fold report_queue counts s =
     s\<lparr>sink := sink s @ map (\<lambda>p. QueueStats (fst p) (snd p)) counts,
        logged := logged s @ map (\<lambda>p. Debug_queue (fst p) (snd p)) counts\<rparr>"
  by (induction counts arbitrary: s)
    (auto simp: report_queue_def sink_call_def log_call_def split: prod.splits)

lemma event_dispatcher_worker:
  assumes "kind = ''heartbeat'' \<or> kind = ''online''"
  shows "event_dispatcher clk (worker_event kind h) s
    = (None, s\<lparr>heartbeats := insert (KStr h) (heartbeats s)\<rparr>)"
  using assms
  by (auto simp: event_dispatcher_def worker_event_def task_types_def worker_types_def
      worker_heartbeat_def)

lemma collector_run_workers:
  assumes "\<forall>p\<in>set hs. fst p = ''heartbeat'' \<or> fst p = ''online''"
  shows "collector_run clk (map (\<lambda>p. worker_event (fst p) (snd p)) hs) s
    = s\<lparr>heartbeats := heartbeats s \<union> KStr ` set (map snd hs)\<rparr>"
  using assms
proof (induction hs arbitrary: s)
  case Nil
  then show ?case by simp
next
  case (Cons p hs)
  then show ?case by (simp add: event_dispatcher_worker)
qed

lemma after_received_eq:
  "after_received =
     \<lparr>tuids = [(KStr ''A'', (\<lparr>name = PStr ''add'', received = PFloat 0, started = PInt 0\<rparr>, 0))],
      heartbeats = {}, ticks = 1,
      sink = [TaskStats (PStr ''add'') (PStr ''received'') (PFloat 0)],
      logged = [Debug_task 1 (PStr ''add'') (PStr ''received'') PNone]\<rparr>"
  by (simp add: after_received_def run_defs)

lemma after_started_eq:
  "after_started =
     \<lparr>tuids = [(KStr ''A'', (\<lparr>name = PStr ''add'', received = PFloat 0, started = PFloat 5\<rparr>, 0))],
      heartbeats = {}, ticks = 6,
      sink = [TaskStats (PStr ''add'') (PStr ''received'') (PFloat 0),
              TaskStats (PStr ''add'') (PStr ''started'') (PFloat 5)],
      logged = [Debug_task 1 (PStr ''add'') (PStr ''received'') PNone,
                Debug_task 1 (PStr ''add'') (PStr ''started'') (PFloat 5)]\<rparr>"
  by (simp add: after_started_def after_received_eq run_defs)


text \<open>
  When the subtraction at line 103 raises (\<open>TypeError\<close>, or \<open>OverflowError\<close> for a float
  beside an int beyond the range of a double), \<^verbatim>\<open>del tuids[uuid]\<close> at line 104 is not reached:
  the exception is logged and the record stays in the store.
\<close>

lemma py_sub_overflow: "py_sub (PFloat (3 / 2)) (PInt (10 ^ 400)) = Inl OverflowError"
  by (simp add: py_sub_def int_too_large_def)

lemma terminal_block_sub_raises:
  assumes "map_of (tuids s) k = Some (r, t)"
    and "clk (ticks s) - t < max_age_seconds"
    and "clk (Suc (ticks s)) - t < max_age_seconds"
    and "py_truthy (started r)"
    and "e ''timestamp'' = Some ts"
    and "py_sub ts (started r) = Inl x"
  shows "terminal_block clk e k duration s = (Raise x, s\<lparr>ticks := Suc (Suc (ticks s))\<rparr>)"
  using assms
  by (simp add: terminal_block_def tuids_getitem_live)

lemma terminal_sub_raises_keeps_record:
  assumes "PStr kind \<in> set terminal_kinds"
    and "is_task_event kind uuid e" and "py_hash uuid = Inr k"
    and "map_of (tuids s) k = Some (r, t)"
    and "\<forall>i<4. clk (ticks s + i) - t < max_age_seconds"
    and "py_truthy (name r)"
    and "py_truthy (started r)"
    and "e ''timestamp'' = Some ts"
    and "py_sub ts (started r) = Inl x"
  shows "tuids (snd (task_handler clk e s)) = tuids s \<and>
    sink (snd (task_handler clk e s)) = sink s \<and>
    logged (snd (task_handler clk e s)) = logged s @ [Exception_task x e]"
proof -
  have l0: "clk (ticks s) - t < max_age_seconds"
    using assms(5)[rule_format, of 0] by simp
  have l1: "clk (Suc (ticks s)) - t < max_age_seconds"
    using assms(5)[rule_format, of 1] by simp
  have l2: "clk (Suc (Suc (ticks s))) - t < max_age_seconds"
    using assms(5)[rule_format, of 2] by (simp add: eval_nat_numeral)
  have l3: "clk (Suc (Suc (Suc (ticks s)))) - t < max_age_seconds"
    using assms(5)[rule_format, of 3] by (simp add: eval_nat_numeral)
  have ob: "other_block clk uuid s = (Next (k, name r, PNone), s\<lparr>ticks := Suc (Suc (ticks s))\<rparr>)"
    by (rule other_block_live[where clk=clk and s=s, OF assms(3,4) l0 l1])
  have tb: "terminal_block clk e k PNone (s\<lparr>ticks := Suc (Suc (ticks s))\<rparr>) =
      (Raise x, s\<lparr>ticks := ticks s + 4\<rparr>)"
    using terminal_block_sub_raises[of "s\<lparr>ticks := Suc (Suc (ticks s))\<rparr>" k r t clk e ts x PNone]
      assms(4,7,8,9) l2 l3
    by (simp add: eval_nat_numeral)
  have "task_handler clk e s
      = (None, log_call (Exception_task x e) (s\<lparr>ticks := ticks s + 4\<rparr>))"
    using assms(1,2,6) terminal_kind_cases[OF assms(1)] ob tb py_sub_raises[OF assms(9)]
    by (simp add: task_handler_def task_handler_try_def is_task_event_def report_def)
  then show ?thesis by (simp add: log_call_def)
qed


section \<open>The life cycle of one task\<close>

text \<open>
  C1, as amended. Events \<open>received\<close>, \<open>started\<close> and a terminal event (\<open>succeeded\<close> or any
  other terminal kind) for one identifier \<open>U\<close>, with float timestamps \<open>t0 \<le> t1 \<le> t2\<close>,
  processed in order from an empty store: when the task name is not empty, \<open>t1\<close> is not
  \<open>0\<close>, and every store access of the three handler calls happens less than
  \<open>max_age_seconds\<close> after the insertion, exactly three metrics are emitted, with durations
  \<open>0\<close>, \<open>t1 - t0\<close> and \<open>t2 - t1\<close>, all non-negative, and the store is empty afterwards.
\<close>

theorem lifecycle_three_metrics:
  assumes "tuids s = []"
    and "is_task_event ''received'' (PStr U) e0"
    and "e0 ''name'' = Some (PStr nm)" and "e0 ''timestamp'' = Some (PFloat t0)"
    and "is_task_event ''started'' (PStr U) e1" and "e1 ''timestamp'' = Some (PFloat t1)"
    and "PStr kind \<in> set terminal_kinds"
    and "is_task_event kind (PStr U) e2" and "e2 ''timestamp'' = Some (PFloat t2)"
    and "t0 \<le> t1" and "t1 \<le> t2"
    and "nm \<noteq> []" and "t1 \<noteq> 0"
    and "\<forall>i\<in>{1..9}. clk (ticks s + i) - clk (ticks s) < max_age_seconds"
  shows "sink (collector_run clk [e0, e1, e2] s) =
      sink s @ [TaskStats (PStr nm) (PStr ''received'') (PFloat 0),
                TaskStats (PStr nm) (PStr ''started'') (PFloat (t1 - t0)),
                TaskStats (PStr nm) (PStr kind) (PFloat (t2 - t1))] \<and>
    0 \<le> t1 - t0 \<and> 0 \<le> t2 - t1 \<and>
    tuids (collector_run clk [e0, e1, e2] s) = []"
proof -
  define r0 where "r0 = \<lparr>name = PStr nm, received = PFloat t0, started = PInt 0\<rparr>"
  define s1 where "s1 = snd (task_handler clk e0 s)"
  define s2 where "s2 = snd (task_handler clk e1 s1)"
  define s3 where "s3 = snd (task_handler clk e2 s2)"
  have k: "py_hash (PStr U) = Inr (KStr U)" by simp
  have nm: "py_truthy (PStr nm)" using assms(12) by simp
  have h1: "task_handler clk e0 s =
      (None,
       sink_call (TaskStats (PStr nm) (PStr ''received'') (PFloat 0))
         (log_call
            (Debug_task (length (ed_setitem (clk (ticks s)) (KStr U) r0 (tuids s)))
               (PStr nm) (PStr ''received'') PNone)
            (tuids_dict_update clk (KStr U) r0 s)))"
    unfolding r0_def by (rule task_handler_received[OF assms(2) k assms(3,4) nm])
  have t1: "tuids s1 = [(KStr U, (r0, clk (ticks s)))]"
    and n1: "ticks s1 = Suc (ticks s)"
    and o1: "sink s1 = sink s @ [TaskStats (PStr nm) (PStr ''received'') (PFloat 0)]"
    using assms(1)
    by (simp_all add: s1_def h1 sink_call_def log_call_def tuids_dict_update_def
        ed_setitem_def max_len_def)
  have m1: "map_of (tuids s1) (KStr U) = Some (r0, clk (ticks s))"
    by (simp add: t1)
  have c1: "\<forall>i<5. clk (ticks s1 + i) - clk (ticks s) < max_age_seconds"
  proof (intro allI impI)
    fix i :: nat assume "i < 5"
    then have "Suc i \<in> {1..9}" by simp
    with assms(14) have "clk (ticks s + Suc i) - clk (ticks s) < max_age_seconds" by blast
    then show "clk (ticks s1 + i) - clk (ticks s) < max_age_seconds" by (simp add: n1)
  qed
  have d1: "py_sub (PFloat t1) (received r0) = Inr (PFloat (t1 - t0))"
    by (simp add: r0_def py_sub_float)
  have nr: "py_truthy (name r0)" using nm by (simp add: r0_def)
  have h2: "task_handler clk e1 s1 =
      (None,
       sink_call (TaskStats (name r0) (PStr ''started'') (py_or (PFloat (t1 - t0)) (PFloat 0)))
         (log_call
            (Debug_task (length (ed_set_started (KStr U) (PFloat t1) (tuids s1)))
               (name r0) (PStr ''started'') (PFloat (t1 - t0)))
            (s1\<lparr>tuids := ed_set_started (KStr U) (PFloat t1) (tuids s1),
                 ticks := ticks s1 + 5\<rparr>)))"
    using task_handler_started_live[where clk=clk and s=s1 and e=e1 and uuid="PStr U"
        and k="KStr U" and ts="PFloat t1" and r=r0 and t="clk (ticks s)" and d="PFloat (t1 - t0)"]
      assms(5,6) k m1 c1 d1 nr
    by blast
  have t2: "tuids s2 = [(KStr U, (r0\<lparr>started := PFloat t1\<rparr>, clk (ticks s)))]"
    and n2: "ticks s2 = ticks s + 6"
    and o2: "sink s2 = sink s1 @ [TaskStats (PStr nm) (PStr ''started'') (PFloat (t1 - t0))]"
    by (simp_all add: s2_def h2 sink_call_def log_call_def t1 n1 ed_set_started_def
        py_or_float r0_def)
  have m2: "map_of (tuids s2) (KStr U) = Some (r0\<lparr>started := PFloat t1\<rparr>, clk (ticks s))"
    by (simp add: t2)
  have c2: "\<forall>i<4. clk (ticks s2 + i) - clk (ticks s) < max_age_seconds"
  proof (intro allI impI)
    fix i :: nat assume "i < 4"
    then have "6 + i \<in> {1..9}" by simp
    with assms(14) have "clk (ticks s + (6 + i)) - clk (ticks s) < max_age_seconds" by blast
    then show "clk (ticks s2 + i) - clk (ticks s) < max_age_seconds"
      by (simp add: n2 add.assoc)
  qed
  have h3: "task_handler clk e2 s2 =
      (None,
       sink_call
         (TaskStats (name (r0\<lparr>started := PFloat t1\<rparr>)) (PStr kind)
            (py_or (PFloat (t2 - t1)) (PFloat 0)))
         (log_call
            (Debug_task (length (AList.delete (KStr U) (tuids s2)))
               (name (r0\<lparr>started := PFloat t1\<rparr>)) (PStr kind) (PFloat (t2 - t1)))
            (s2\<lparr>tuids := AList.delete (KStr U) (tuids s2), ticks := ticks s2 + 4\<rparr>)))"
    using task_handler_terminal_live[where clk=clk and s=s2 and e=e2 and uuid="PStr U"
        and k="KStr U" and ts="PFloat t2" and r="r0\<lparr>started := PFloat t1\<rparr>"
        and t="clk (ticks s)" and d="PFloat (t2 - t1)" and kind=kind]
      assms(7,8,9,13) k m2 c2 nr
    by (simp add: py_sub_float)
  have t3: "tuids s3 = []"
    and o3: "sink s3 = sink s2 @ [TaskStats (PStr nm) (PStr kind) (PFloat (t2 - t1))]"
    by (simp_all add: s3_def h3 sink_call_def log_call_def t2 py_or_float r0_def)
  have run: "collector_run clk [e0, e1, e2] s = s3"
    using event_dispatcher_task[OF assms(2) task_types_basic(1), of clk s]
      event_dispatcher_task[OF assms(5) task_types_basic(2), of clk s1]
      event_dispatcher_task[OF assms(8) terminal_task_type[OF assms(7)], of clk s2]
    by (simp add: s1_def s2_def s3_def)
  show ?thesis
    unfolding run using assms(10,11) by (simp add: t3 o3 o2 o1)
qed

theorem lifecycle_three_metrics_witness:
  "sink (collector_run (clock_at 0)
     [named_task_event ''received'' ''A'' ''add'' (PFloat 0),
      task_event ''started'' ''A'' (PFloat 5),
      task_event ''failed'' ''A'' (PFloat 9)] init)
   = [TaskStats (PStr ''add'') (PStr ''received'') (PFloat 0),
      TaskStats (PStr ''add'') (PStr ''started'') (PFloat 5),
      TaskStats (PStr ''add'') (PStr ''failed'') (PFloat 4)] \<and>
   tuids (collector_run (clock_at 0)
     [named_task_event ''received'' ''A'' ''add'' (PFloat 0),
      task_event ''started'' ''A'' (PFloat 5),
      task_event ''failed'' ''A'' (PFloat 9)] init) = []"
proof -
  have a1: "tuids init = []" by (simp add: init_def)
  have a2: "is_task_event ''received'' (PStr ''A'')
      (named_task_event ''received'' ''A'' ''add'' (PFloat 0))"
    by (simp add: is_task_event_def named_task_event_def task_event_def)
  have a3: "named_task_event ''received'' ''A'' ''add'' (PFloat 0) ''name'' = Some (PStr ''add'')"
    by (simp add: named_task_event_def)
  have a4: "named_task_event ''received'' ''A'' ''add'' (PFloat 0) ''timestamp'' = Some (PFloat 0)"
    by (simp add: named_task_event_def task_event_def)
  have a5: "is_task_event ''started'' (PStr ''A'') (task_event ''started'' ''A'' (PFloat 5))"
    by (simp add: is_task_event_def task_event_def)
  have a6: "task_event ''started'' ''A'' (PFloat 5) ''timestamp'' = Some (PFloat 5)"
    by (simp add: task_event_def)
  have a7: "PStr ''failed'' \<in> set terminal_kinds" by (simp add: terminal_kinds_def)
  have a8: "is_task_event ''failed'' (PStr ''A'') (task_event ''failed'' ''A'' (PFloat 9))"
    by (simp add: is_task_event_def task_event_def)
  have a9: "task_event ''failed'' ''A'' (PFloat 9) ''timestamp'' = Some (PFloat 9)"
    by (simp add: task_event_def)
  have a14: "\<forall>i\<in>{1..9}. clock_at 0 (ticks init + i) - clock_at 0 (ticks init) < max_age_seconds"
    by (simp add: clock_at_def max_age_seconds_def)
  have "(0::real) \<le> 5" and "(5::real) \<le> 9" and "''add'' \<noteq> []" and "(5::real) \<noteq> 0"
    by simp_all
  from lifecycle_three_metrics[where clk="clock_at 0", OF a1 a2 a3 a4 a5 a6 a7 a8 a9 this a14]
  show ?thesis by (simp add: init_def)
qed

text \<open>
  C1 as stated fails when the task starts at timestamp \<open>0\<close>: \<^verbatim>\<open>'started': 0\<close> is also the
  mark of a task that has not started, so the terminal event reports \<open>0.0\<close> instead of
  \<open>t2 - t1 = 4\<close>.
\<close>

theorem lifecycle_started_at_zero_counterexample:
  "(0::real) \<le> 0 \<and> (0::real) \<le> 4 \<and>
   sink (collector_run (clock_at 0)
     [named_task_event ''received'' ''A'' ''add'' (PFloat 0),
      task_event ''started'' ''A'' (PFloat 0),
      task_event ''succeeded'' ''A'' (PFloat 4)] init)
   = [TaskStats (PStr ''add'') (PStr ''received'') (PFloat 0),
      TaskStats (PStr ''add'') (PStr ''started'') (PFloat 0),
      TaskStats (PStr ''add'') (PStr ''succeeded'') (PFloat 0)] \<and>
   TaskStats (PStr ''add'') (PStr ''succeeded'') (PFloat (4 - 0))
     \<notin> set (sink (collector_run (clock_at 0)
         [named_task_event ''received'' ''A'' ''add'' (PFloat 0),
          task_event ''started'' ''A'' (PFloat 0),
          task_event ''succeeded'' ''A'' (PFloat 4)] init))"
  by (simp add: run_defs)


section \<open>Events for identifiers that the store does not hold\<close>

text \<open>
  C2. A \<open>started\<close> or terminal event whose identifier is not present in the store (no
  entry, or an entry that has expired at the time of the lookup) emits no metric, logs
  nothing, raises nothing and leaves the visible content of the store as it was; when the
  store has no entry at all for the identifier it is left exactly as it was.
\<close>

theorem unknown_identifier_dropped:
  assumes "kind = ''started'' \<or> PStr kind \<in> set terminal_kinds"
    and "is_task_event kind uuid e" and "py_hash uuid = Inr k"
    and "ed_view (clk (ticks s)) (tuids s) k = None"
  shows "fst (task_handler clk e s) = None \<and>
    sink (snd (task_handler clk e s)) = sink s \<and>
    logged (snd (task_handler clk e s)) = logged s \<and>
    heartbeats (snd (task_handler clk e s)) = heartbeats s \<and>
    ed_view (clk (ticks s)) (tuids (snd (task_handler clk e s)))
      = ed_view (clk (ticks s)) (tuids s) \<and>
    (map_of (tuids s) k = None \<longrightarrow> tuids (snd (task_handler clk e s)) = tuids s)"
proof -
  define now where "now = clk (ticks s)"
  define d where "d = snd (ed_contains now k (tuids s))"
  have inv: "ed_view now (tuids s) k = None"
    using assms(4) by (simp add: now_def)
  from assms(1) have nr: "kind \<noteq> ''received''"
    by (auto simp: terminal_kinds_def)
  have "task_handler clk e s = (None, s\<lparr>tuids := d, ticks := Suc (ticks s)\<rparr>)"
    using task_handler_invisible[where clk=clk and s=s and e=e, OF assms(2) nr assms(3,4)]
    by (simp add: d_def now_def)
  moreover have "ed_view now d = ed_view now (tuids s)"
    unfolding d_def by (rule ed_contains_invisible(2)[OF inv])
  moreover have "map_of (tuids s) k = None \<longrightarrow> d = tuids s"
    unfolding d_def using ed_contains_invisible(3)[OF inv] by blast
  ultimately show ?thesis by (simp add: now_def)
qed

theorem unknown_identifier_dropped_witness:
  "ed_view (clock_at 0 (ticks init)) (tuids init) (KStr ''B'') = None \<and>
   task_handler (clock_at 0) (task_event ''started'' ''B'' (PFloat 5)) init
     = (None, init\<lparr>ticks := 1\<rparr>) \<and>
   sink (snd (task_handler (clock_at 0) (task_event ''started'' ''B'' (PFloat 5)) init)) = [] \<and>
   tuids (snd (task_handler (clock_at 0) (task_event ''started'' ''B'' (PFloat 5)) init)) = []"
proof -
  have a1: "''started'' = ''started'' \<or> PStr ''started'' \<in> set terminal_kinds"
    by simp
  have a2: "is_task_event ''started'' (PStr ''B'') (task_event ''started'' ''B'' (PFloat 5))"
    by (simp add: is_task_event_def task_event_def)
  have a3: "py_hash (PStr ''B'') = Inr (KStr ''B'')"
    by simp
  have a4: "ed_view (clock_at 0 (ticks init)) (tuids init) (KStr ''B'') = None"
    by (simp add: ed_view_def init_def)
  have a5: "map_of (tuids init) (KStr ''B'') = None"
    by (simp add: init_def)
  from unknown_identifier_dropped[where clk="clock_at 0" and s=init, OF a1 a2 a3 a4] a5
  have "sink (snd (task_handler (clock_at 0) (task_event ''started'' ''B'' (PFloat 5)) init))
      = sink init"
    and "tuids (snd (task_handler (clock_at 0) (task_event ''started'' ''B'' (PFloat 5)) init))
      = tuids init"
    by blast+
  moreover have "task_handler (clock_at 0) (task_event ''started'' ''B'' (PFloat 5)) init
      = (None, init\<lparr>ticks := 1\<rparr>)"
    by (simp add: run_defs)
  ultimately show ?thesis using a4 by (simp add: init_def)
qed


section \<open>\<open>sent\<close> events\<close>

text \<open>
  C3, as amended. A \<open>sent\<close> event never creates a store entry. It takes the path of the
  terminal kinds up to the name check: when the store holds no visible record for its
  identifier the event is dropped, with no metric and no log line; when it holds a record
  with a non-empty name (live at both lookups) one metric is emitted, with the name taken
  from the record, not from the event, and duration \<open>0.0\<close>, and the store is left as it was.
\<close>

theorem sent_needs_record:
  assumes "is_task_event ''sent'' uuid e" and "py_hash uuid = Inr k"
  shows "fst ` set (tuids (snd (task_handler clk e s))) \<subseteq> fst ` set (tuids s) \<and>
    (ed_view (clk (ticks s)) (tuids s) k = None \<longrightarrow>
       fst (task_handler clk e s) = None \<and>
       sink (snd (task_handler clk e s)) = sink s \<and>
       logged (snd (task_handler clk e s)) = logged s) \<and>
    (\<forall>r t. map_of (tuids s) k = Some (r, t) \<and> clk (ticks s) - t < max_age_seconds \<and>
       clk (Suc (ticks s)) - t < max_age_seconds \<and> py_truthy (name r) \<longrightarrow>
       sink (snd (task_handler clk e s))
         = sink s @ [TaskStats (name r) (PStr ''sent'') (PFloat 0)] \<and>
       tuids (snd (task_handler clk e s)) = tuids s)"
proof (intro conjI impI allI)
  show "fst ` set (tuids (snd (task_handler clk e s))) \<subseteq> fst ` set (tuids s)"
    using task_handler_sent_tuids[OF assms, of clk s]
  proof
    assume "tuids (snd (task_handler clk e s)) = tuids s"
    then show ?thesis by simp
  next
    assume "tuids (snd (task_handler clk e s)) = AList.delete k (tuids s)"
    then show ?thesis by (simp add: dom_delete_subset)
  qed
next
  assume inv: "ed_view (clk (ticks s)) (tuids s) k = None"
  note h = task_handler_invisible[where clk=clk and s=s and e=e, OF assms(1) sent_kind(1) assms(2) inv]
  show "fst (task_handler clk e s) = None" by (simp add: h)
  show "sink (snd (task_handler clk e s)) = sink s" by (simp add: h)
  show "logged (snd (task_handler clk e s)) = logged s" by (simp add: h)
next
  fix r t
  assume live: "map_of (tuids s) k = Some (r, t) \<and> clk (ticks s) - t < max_age_seconds \<and>
       clk (Suc (ticks s)) - t < max_age_seconds \<and> py_truthy (name r)"
  note h = task_handler_other_live[where clk=clk and s=s and e=e and kind="''sent''"
      and uuid=uuid and k=k and r=r and t=t]
  from live have eq: "task_handler clk e s =
    (None,
     sink_call (TaskStats (name r) (PStr ''sent'') (PFloat 0))
       (log_call (Debug_task (length (tuids s)) (name r) (PStr ''sent'') PNone)
          (s\<lparr>ticks := Suc (Suc (ticks s))\<rparr>)))"
    using h assms sent_kind by blast
  show "sink (snd (task_handler clk e s))
         = sink s @ [TaskStats (name r) (PStr ''sent'') (PFloat 0)]"
    by (simp add: eq sink_call_def log_call_def)
  show "tuids (snd (task_handler clk e s)) = tuids s"
    by (simp add: eq sink_call_def log_call_def)
qed

theorem sent_needs_record_witness:
  "sink (snd (task_handler (clock_at 0) (named_task_event ''sent'' ''B'' ''add'' (PFloat 1)) init))
     = [] \<and>
   sink (snd (task_handler (clock_at 0) (named_task_event ''sent'' ''A'' ''mul'' (PFloat 1))
      after_received))
     = [TaskStats (PStr ''add'') (PStr ''received'') (PFloat 0),
        TaskStats (PStr ''add'') (PStr ''sent'') (PFloat 0)] \<and>
   tuids (snd (task_handler (clock_at 0) (named_task_event ''sent'' ''A'' ''mul'' (PFloat 1))
      after_received))
     = tuids after_received"
proof -
  have b1: "is_task_event ''sent'' (PStr ''B'') (named_task_event ''sent'' ''B'' ''add'' (PFloat 1))"
    by (simp add: is_task_event_def named_task_event_def task_event_def)
  have b2: "py_hash (PStr ''B'') = Inr (KStr ''B'')" by simp
  have b3: "ed_view (clock_at 0 (ticks init)) (tuids init) (KStr ''B'') = None"
    by (simp add: ed_view_def init_def)
  from sent_needs_record[where clk="clock_at 0" and s=init, OF b1 b2] b3
  have absent: "sink (snd (task_handler (clock_at 0)
      (named_task_event ''sent'' ''B'' ''add'' (PFloat 1)) init)) = sink init"
    by blast
  have a1: "is_task_event ''sent'' (PStr ''A'') (named_task_event ''sent'' ''A'' ''mul'' (PFloat 1))"
    by (simp add: is_task_event_def named_task_event_def task_event_def)
  have a2: "py_hash (PStr ''A'') = Inr (KStr ''A'')" by simp
  have a3: "map_of (tuids after_received) (KStr ''A'')
      = Some (\<lparr>name = PStr ''add'', received = PFloat 0, started = PInt 0\<rparr>, 0) \<and>
    clock_at 0 (ticks after_received) - 0 < max_age_seconds \<and>
    clock_at 0 (Suc (ticks after_received)) - 0 < max_age_seconds \<and>
    py_truthy (name \<lparr>name = PStr ''add'', received = PFloat 0, started = PInt 0\<rparr>)"
    by (simp add: after_received_eq clock_at_def max_age_seconds_def)
  from sent_needs_record[where clk="clock_at 0" and s=after_received, OF a1 a2] a3
  have "sink (snd (task_handler (clock_at 0) (named_task_event ''sent'' ''A'' ''mul'' (PFloat 1))
        after_received))
      = sink after_received @
        [TaskStats (name \<lparr>name = PStr ''add'', received = PFloat 0, started = PInt 0\<rparr>)
           (PStr ''sent'') (PFloat 0)]"
    and "tuids (snd (task_handler (clock_at 0) (named_task_event ''sent'' ''A'' ''mul'' (PFloat 1))
        after_received))
      = tuids after_received"
    by blast+
  with absent show ?thesis by (simp add: after_received_eq init_def)
qed

text \<open>
  C3 as stated fails: a \<open>sent\<close> event that carries a name, for an identifier without a
  record, emits nothing.
\<close>

theorem sent_without_record_counterexample:
  "task_handler (clock_at 0) (named_task_event ''sent'' ''A'' ''add'' (PFloat 0)) init
   = (None, init\<lparr>ticks := 1\<rparr>) \<and>
   TaskStats (PStr ''add'') (PStr ''sent'') (PFloat 0)
     \<notin> set (sink (snd (task_handler (clock_at 0)
         (named_task_event ''sent'' ''A'' ''add'' (PFloat 0)) init)))"
  by (simp add: run_defs)


section \<open>The reported duration\<close>

text \<open>
  C4, as amended. Whenever the handler emits a metric for a task event, it emits exactly
  one, and its duration is never \<open>None\<close>: it is exactly \<open>0.0\<close> for every kind other than
  \<open>started\<close> and the terminal kinds (\<open>received\<close>, \<open>sent\<close>) and for a terminal event whose
  record has \<open>started\<close> unset; with float timestamps it is the event's timestamp minus the
  record's \<open>received\<close> (for \<open>started\<close>) or minus the record's \<open>started\<close> (for a terminal
  event), which is a non-negative float exactly when the event's timestamp is not earlier
  than the recorded one.
\<close>

theorem duration_reported:
  assumes "is_task_event kind uuid e" and "py_hash uuid = Inr k"
    and "sink (snd (task_handler clk e s)) \<noteq> sink s"
  shows "\<exists>nm d. sink (snd (task_handler clk e s)) = sink s @ [TaskStats nm (PStr kind) d] \<and>
    d \<noteq> PNone \<and>
    (kind \<noteq> ''started'' \<and> PStr kind \<notin> set terminal_kinds \<longrightarrow> d = PFloat 0) \<and>
    (\<forall>r t. PStr kind \<in> set terminal_kinds \<and> map_of (tuids s) k = Some (r, t) \<and>
       \<not> py_truthy (started r) \<longrightarrow> d = PFloat 0) \<and>
    (\<forall>r t ts a. kind = ''started'' \<and> map_of (tuids s) k = Some (r, t) \<and>
       e ''timestamp'' = Some (PFloat ts) \<and> received r = PFloat a \<longrightarrow>
       d = PFloat (ts - a) \<and> (is_nonneg_float d \<longleftrightarrow> a \<le> ts)) \<and>
    (\<forall>r t ts b. PStr kind \<in> set terminal_kinds \<and> map_of (tuids s) k = Some (r, t) \<and>
       e ''timestamp'' = Some (PFloat ts) \<and> started r = PFloat b \<and> b \<noteq> 0 \<longrightarrow>
       d = PFloat (ts - b) \<and> (is_nonneg_float d \<longleftrightarrow> b \<le> ts))"
proof -
  from task_handler_emits[OF assms] obtain nm d' where
    out: "sink (snd (task_handler clk e s))
        = sink s @ [TaskStats nm (PStr kind) (py_or d' (PFloat 0))]"
    and d': "if kind = ''received'' then d' = PNone
      else if kind = ''started'' then
        (\<exists>r t ts. map_of (tuids s) k = Some (r, t) \<and> e ''timestamp'' = Some ts \<and>
           py_sub ts (received r) = Inr d')
      else if PStr kind \<in> set terminal_kinds then
        (\<exists>r t. map_of (tuids s) k = Some (r, t) \<and>
           (if py_truthy (started r)
            then (\<exists>ts. e ''timestamp'' = Some ts \<and> py_sub ts (started r) = Inr d')
            else d' = PNone))
      else d' = PNone"
    by blast
  define d where "d = py_or d' (PFloat 0)"
  have c1: "d \<noteq> PNone" unfolding d_def by (rule py_or_not_None)
  have c2: "kind \<noteq> ''started'' \<and> PStr kind \<notin> set terminal_kinds \<longrightarrow> d = PFloat 0"
    using d' by (auto simp: d_def py_or_None split: if_splits)
  have c3: "\<forall>r t. PStr kind \<in> set terminal_kinds \<and> map_of (tuids s) k = Some (r, t) \<and>
       \<not> py_truthy (started r) \<longrightarrow> d = PFloat 0"
    using d' terminal_kind_cases[of kind] by (auto simp: d_def py_or_None split: if_splits)
  have c4: "\<forall>r t ts a. kind = ''started'' \<and> map_of (tuids s) k = Some (r, t) \<and>
       e ''timestamp'' = Some (PFloat ts) \<and> received r = PFloat a \<longrightarrow>
       d = PFloat (ts - a) \<and> (is_nonneg_float d \<longleftrightarrow> a \<le> ts)"
    using d' by (auto simp: d_def dest!: py_or_sub_float split: if_splits)
  have c5: "\<forall>r t ts b. PStr kind \<in> set terminal_kinds \<and> map_of (tuids s) k = Some (r, t) \<and>
       e ''timestamp'' = Some (PFloat ts) \<and> started r = PFloat b \<and> b \<noteq> 0 \<longrightarrow>
       d = PFloat (ts - b) \<and> (is_nonneg_float d \<longleftrightarrow> b \<le> ts)"
    using d' terminal_kind_cases[of kind]
    by (auto simp: d_def dest!: py_or_sub_float split: if_splits)
  from out c1 c2 c3 c4 c5 show ?thesis unfolding d_def by blast
qed

theorem duration_reported_witness:
  "sink (snd (task_handler (clock_at 0) (task_event ''started'' ''A'' (PFloat 5)) after_received))
     \<noteq> sink after_received \<and>
   (\<exists>nm. sink (snd (task_handler (clock_at 0) (task_event ''started'' ''A'' (PFloat 5))
      after_received))
     = sink after_received @ [TaskStats nm (PStr ''started'') (PFloat 5)]) \<and>
   is_nonneg_float (PFloat 5)"
proof -
  have a1: "is_task_event ''started'' (PStr ''A'') (task_event ''started'' ''A'' (PFloat 5))"
    by (simp add: is_task_event_def task_event_def)
  have a2: "py_hash (PStr ''A'') = Inr (KStr ''A'')" by simp
  have a3: "sink (snd (task_handler (clock_at 0) (task_event ''started'' ''A'' (PFloat 5))
      after_received)) \<noteq> sink after_received"
    by (simp add: after_received_eq run_defs)
  have rec: "''started'' = ''started'' \<and>
    map_of (tuids after_received) (KStr ''A'')
      = Some (\<lparr>name = PStr ''add'', received = PFloat 0, started = PInt 0\<rparr>, 0) \<and>
    task_event ''started'' ''A'' (PFloat 5) ''timestamp'' = Some (PFloat 5) \<and>
    received \<lparr>name = PStr ''add'', received = PFloat 0, started = PInt 0\<rparr> = PFloat 0"
    by (simp add: after_received_eq task_event_def)
  from duration_reported[where clk="clock_at 0" and s=after_received, OF a1 a2 a3]
  obtain nm d where
    out: "sink (snd (task_handler (clock_at 0) (task_event ''started'' ''A'' (PFloat 5))
        after_received)) = sink after_received @ [TaskStats nm (PStr ''started'') d]"
    and st: "\<forall>r t ts a. ''started'' = ''started'' \<and>
       map_of (tuids after_received) (KStr ''A'') = Some (r, t) \<and>
       task_event ''started'' ''A'' (PFloat 5) ''timestamp'' = Some (PFloat ts) \<and>
       received r = PFloat a \<longrightarrow>
       d = PFloat (ts - a) \<and> (is_nonneg_float d \<longleftrightarrow> a \<le> ts)"
    by (elim exE conjE) (rule that, assumption+)
  from st rec have "d = PFloat (5 - 0) \<and> (is_nonneg_float d \<longleftrightarrow> (0::real) \<le> 5)"
    by blast
  then have "d = PFloat 5" and "is_nonneg_float (PFloat 5)" by auto
  with out a3 show ?thesis by blast
qed

text \<open>
  C4 as stated fails: nothing clamps the difference, so a \<open>started\<close> event stamped earlier
  than its \<open>received\<close> event reports a negative duration.
\<close>

theorem negative_duration_counterexample:
  "sink (collector_run (clock_at 0)
     [named_task_event ''received'' ''A'' ''add'' (PFloat 10),
      task_event ''started'' ''A'' (PFloat 5)] init)
   = [TaskStats (PStr ''add'') (PStr ''received'') (PFloat 0),
      TaskStats (PStr ''add'') (PStr ''started'') (PFloat (- 5))] \<and>
   \<not> is_nonneg_float (PFloat (- 5))"
  by (simp add: run_defs is_nonneg_float_def)


section \<open>Terminal events delete the record\<close>

text \<open>
  C5, as amended. For a terminal event whose identifier is present in the store at the time
  of the membership test, with a record whose name is not empty and whose \<open>started\<close> is
  either unset or can be subtracted from the event's timestamp (the event has a timestamp,
  both are numbers, and no int too large for a float stands beside a float), the store
  holds no entry for the identifier after the handler has finished (also when the entry
  expires during the call).
\<close>

theorem terminal_deletes_record:
  assumes "PStr kind \<in> set terminal_kinds"
    and "is_task_event kind uuid e" and "py_hash uuid = Inr k"
    and "map_of (tuids s) k = Some (r, t)" and "clk (ticks s) - t < max_age_seconds"
    and "py_truthy (name r)"
    and "py_truthy (started r) \<longrightarrow>
      (\<exists>ts d. e ''timestamp'' = Some ts \<and> py_sub ts (started r) = Inr d)"
  shows "map_of (tuids (snd (task_handler clk e s))) k = None"
proof -
  let ?s1 = "s\<lparr>ticks := Suc (ticks s)\<rparr>"
  let ?s2 = "?s1\<lparr>ticks := Suc (ticks ?s1)\<rparr>"
  have c: "tuids_contains clk k s = (True, ?s1)"
    by (rule tuids_contains_live[where clk=clk, OF assms(4,5)])
  have m1: "map_of (tuids ?s1) k = Some (r, t)" using assms(4) by simp
  have m2: "map_of (tuids ?s2) k = Some (r, t)" using assms(4) by simp
  note kc = terminal_kind_cases[OF assms(1)]
  have "tuids (snd (task_handler clk e s)) = AList.delete k (tuids s)"
    using tuids_getitem_cases[OF m1, of clk]
  proof
    assume g: "tuids_getitem clk k ?s1 = (Inr r, ?s2)"
    have tb: "tuids (snd (terminal_block clk e k PNone ?s2)) = AList.delete k (tuids s)"
      using terminal_block_deletes[where e=e and clk=clk and duration=PNone, OF m2 assms(7)]
      by simp
    obtain f s3 where f: "terminal_block clk e k PNone ?s2 = (f, s3)"
      by (cases "terminal_block clk e k PNone ?s2")
    with tb have s3: "tuids s3 = AList.delete k (tuids s)" by simp
    show ?thesis
      using assms(1,2,3,6) kc c g f s3
      by (cases f)
        (simp_all add: task_handler_def task_handler_try_def is_task_event_def other_block_def
          report_def log_call_def sink_call_def)
  next
    assume g: "tuids_getitem clk k ?s1 =
      (Inl KeyError, ?s1\<lparr>tuids := AList.delete k (tuids ?s1), ticks := Suc (ticks ?s1)\<rparr>)"
    show ?thesis
      using assms(2,3) kc c g
      by (simp add: task_handler_def task_handler_try_def is_task_event_def other_block_def
          log_call_def)
  qed
  then show ?thesis by (simp add: map_of_delete_same)
qed

theorem terminal_deletes_record_witness:
  "map_of (tuids after_started) (KStr ''A'')
     = Some (\<lparr>name = PStr ''add'', received = PFloat 0, started = PFloat 5\<rparr>, 0) \<and>
   py_truthy (PFloat 5) \<and>
   py_sub (PFloat 9) (PFloat 5) = Inr (PFloat 4) \<and>
   map_of (tuids (snd (task_handler (clock_at 0) (task_event ''succeeded'' ''A'' (PFloat 9))
      after_started))) (KStr ''A'') = None"
proof -
  have a1: "PStr ''succeeded'' \<in> set terminal_kinds" by (simp add: terminal_kinds_def)
  have a2: "is_task_event ''succeeded'' (PStr ''A'') (task_event ''succeeded'' ''A'' (PFloat 9))"
    by (simp add: is_task_event_def task_event_def)
  have a3: "py_hash (PStr ''A'') = Inr (KStr ''A'')" by simp
  have a4: "map_of (tuids after_started) (KStr ''A'')
      = Some (\<lparr>name = PStr ''add'', received = PFloat 0, started = PFloat 5\<rparr>, 0)"
    by (simp add: after_started_eq)
  have a5: "clock_at 0 (ticks after_started) - 0 < max_age_seconds"
    by (simp add: clock_at_def max_age_seconds_def)
  have a6: "py_truthy (name \<lparr>name = PStr ''add'', received = PFloat 0, started = PFloat 5\<rparr>)"
    by simp
  have sub: "py_sub (PFloat 9) (PFloat 5) = Inr (PFloat 4)"
    by (simp add: py_sub_float)
  have a7: "py_truthy (started \<lparr>name = PStr ''add'', received = PFloat 0, started = PFloat 5\<rparr>)
      \<longrightarrow> (\<exists>ts d. task_event ''succeeded'' ''A'' (PFloat 9) ''timestamp'' = Some ts \<and>
        py_sub ts (started \<lparr>name = PStr ''add'', received = PFloat 0, started = PFloat 5\<rparr>)
          = Inr d)"
    using sub by (simp add: task_event_def)
  from terminal_deletes_record[where clk="clock_at 0" and s=after_started
      and e="task_event ''succeeded'' ''A'' (PFloat 9)", OF a1 a2 a3 a4 a5 a6 a7] a4 sub
  show ?thesis by simp
qed

text \<open>
  C5 as stated fails for a record with an empty name: the handler returns at the name check,
  before the deletion, and the record stays in the store.
\<close>

theorem terminal_empty_name_counterexample:
  "map_of (tuids after_received_unnamed) (KStr ''A'')
   = Some (\<lparr>name = PStr [], received = PFloat 0, started = PInt 0\<rparr>, 0) \<and>
   clock_at 0 (ticks after_received_unnamed) - 0 < max_age_seconds \<and>
   map_of (tuids (snd (task_handler (clock_at 0) (task_event ''succeeded'' ''A'' (PFloat 9))
      after_received_unnamed))) (KStr ''A'')
   = Some (\<lparr>name = PStr [], received = PFloat 0, started = PInt 0\<rparr>, 0)"
  by (simp add: after_received_unnamed_def run_defs)


section \<open>Heartbeats and the aggregation cycle\<close>

text \<open>
  C7. Starting a cycle with no heartbeats, after any sequence of \<open>worker-heartbeat\<close> and
  \<open>worker-online\<close> events the next pass of the submitter reports one \<open>WorkerStats\<close> point
  whose count is the number of distinct hostnames in the sequence: a repeated hostname
  counts once.
\<close>

theorem heartbeats_counted_once:
  assumes "heartbeats s = {}"
    and "\<forall>p\<in>set hs. fst p = ''heartbeat'' \<or> fst p = ''online''"
  shows "sink (submitter_cycle counts
      (collector_run clk (map (\<lambda>p. worker_event (fst p) (snd p)) hs) s))
    = sink s @ map (\<lambda>p. QueueStats (fst p) (snd p)) counts @
        [WorkerStats (card (set (map snd hs))), QueueStats_commit, WorkerStats_commit] \<and>
    card (set (map snd hs)) = length (remdups (map snd hs))"
proof -
  have "card (KStr ` set (map snd hs)) = card (set (map snd hs))"
    by (rule card_image) (simp add: inj_on_def)
  then have "sink (submitter_cycle counts
      (collector_run clk (map (\<lambda>p. worker_event (fst p) (snd p)) hs) s))
    = sink s @ map (\<lambda>p. QueueStats (fst p) (snd p)) counts @
        [WorkerStats (card (set (map snd hs))), QueueStats_commit, WorkerStats_commit]"
    using assms(1)
    by (simp add: collector_run_workers[OF assms(2)] submitter_cycle_def fold_report_queue
        sink_call_def log_call_def Let_def)
  moreover have "card (set (map snd hs)) = length (remdups (map snd hs))"
    by (rule card_set)
  ultimately show ?thesis by blast
qed

theorem heartbeats_counted_once_witness:
  "sink (submitter_cycle []
      (collector_run (clock_at 0)
         (map (\<lambda>p. worker_event (fst p) (snd p))
            [(''heartbeat'', ''w1''), (''online'', ''w2''), (''heartbeat'', ''w1'')]) init))
    = [WorkerStats 2, QueueStats_commit, WorkerStats_commit]"
proof -
  have a1: "heartbeats init = {}" by (simp add: init_def)
  have a2: "\<forall>p\<in>set [(''heartbeat'', ''w1''), (''online'', ''w2''), (''heartbeat'', ''w1'')].
      fst p = ''heartbeat'' \<or> fst p = ''online''"
    by simp
  from heartbeats_counted_once[where clk="clock_at 0" and counts="[]", OF a1 a2]
  show ?thesis by (simp add: init_def card_insert_if)
qed

text \<open>
  C8. With queue counters \<open>default: 3\<close>, \<open>priority: 0\<close> and heartbeats from \<open>w1\<close>, \<open>w2\<close>,
  \<open>w1\<close>, one pass of the submitter emits \<open>QueueStats(default, 3)\<close>,
  \<open>QueueStats(priority, 0)\<close> and \<open>WorkerStats(2)\<close>, and the heartbeat set is empty afterwards.
\<close>

theorem aggregation_cycle_scenario:
  "sink (submitter_cycle [(''default'', 3), (''priority'', 0)]
     (collector_run (clock_at 0)
        [worker_event ''heartbeat'' ''w1'', worker_event ''heartbeat'' ''w2'',
         worker_event ''heartbeat'' ''w1''] init))
   = [QueueStats ''default'' 3, QueueStats ''priority'' 0, WorkerStats 2,
      QueueStats_commit, WorkerStats_commit] \<and>
   heartbeats (submitter_cycle [(''default'', 3), (''priority'', 0)]
     (collector_run (clock_at 0)
        [worker_event ''heartbeat'' ''w1'', worker_event ''heartbeat'' ''w2'',
         worker_event ''heartbeat'' ''w1''] init)) = {}"
  by (simp add: run_defs worker_event_def submitter_cycle_def report_queue_def Let_def
      card_insert_if)


section \<open>A \<open>received\<close> event without a name\<close>

text \<open>
  C10. A \<open>received\<close> event whose name is empty (or any other falsy value) emits no metric
  and is logged as an anomaly, yet its record has been stored under the event's uuid: the
  insertion comes before the name check.
\<close>

theorem received_empty_name_creates_entry:
  assumes "is_task_event ''received'' uuid e" and "py_hash uuid = Inr k"
    and "e ''name'' = Some nm" and "\<not> py_truthy nm" and "e ''timestamp'' = Some ts"
  shows "fst (task_handler clk e s) = None \<and>
    sink (snd (task_handler clk e s)) = sink s \<and>
    logged (snd (task_handler clk e s)) = logged s @ [Error_no_name e] \<and>
    map_of (tuids (snd (task_handler clk e s))) k
      = Some (\<lparr>name = nm, received = ts, started = PInt 0\<rparr>, clk (ticks s))"
  using assms
  by (simp add: task_handler_def task_handler_try_def is_task_event_def received_block_def
      report_def log_call_def tuids_dict_update_def map_of_ed_setitem)

theorem received_empty_name_creates_entry_witness:
  "\<not> py_truthy (PStr []) \<and>
   sink (snd (task_handler (clock_at 7)
      (named_task_event ''received'' ''A'' [] (PFloat 3)) init)) = [] \<and>
   logged (snd (task_handler (clock_at 7)
      (named_task_event ''received'' ''A'' [] (PFloat 3)) init))
     = [Error_no_name (named_task_event ''received'' ''A'' [] (PFloat 3))] \<and>
   map_of (tuids (snd (task_handler (clock_at 7)
      (named_task_event ''received'' ''A'' [] (PFloat 3)) init))) (KStr ''A'')
     = Some (\<lparr>name = PStr [], received = PFloat 3, started = PInt 0\<rparr>, 7)"
proof -
  have a1: "is_task_event ''received'' (PStr ''A'')
      (named_task_event ''received'' ''A'' [] (PFloat 3))"
    by (simp add: is_task_event_def named_task_event_def task_event_def)
  have a2: "py_hash (PStr ''A'') = Inr (KStr ''A'')"
    by simp
  have a3: "named_task_event ''received'' ''A'' [] (PFloat 3) ''name'' = Some (PStr [])"
    by (simp add: named_task_event_def)
  have a4: "\<not> py_truthy (PStr [])"
    by simp
  have a5: "named_task_event ''received'' ''A'' [] (PFloat 3) ''timestamp'' = Some (PFloat 3)"
    by (simp add: named_task_event_def task_event_def)
  from received_empty_name_creates_entry[where clk="clock_at 7" and s=init, OF a1 a2 a3 a4 a5]
  show ?thesis by (simp add: init_def clock_at_def)
qed

end
